theory Spec2Isabelle
  imports Complex_Main "HOL-Library.Multiset" "HOL-Library.Sublist" "HOL-Library.Log_Nat"
begin

section \<open>Values of the host language\<close>

text \<open>
  The CSV parser is configured with \<^verbatim>\<open>dynamicTyping: true\<close>, so a cell of a parsed row
  is a string, a number, a boolean or \<^verbatim>\<open>null\<close> (an empty cell). The number of a cell
  is finite; it is written as the rational it is equal to. A string is a list of 8-bit
  characters, read as code units below 256.
\<close>

datatype jsval = JStr string | JNum rat | JBool bool | JNull

text \<open>
  A number that the program computes is a double: a finite value, again written as the
  rational it is equal to, or one of the three values that are not finite. The two
  zeros are not told apart: the program never divides by a negative zero (its
  denominators are sums started at \<^verbatim>\<open>0\<close> and counts), and a zero prints and tests the
  same with either sign.
\<close>

datatype number = Finite rat | NaN | PosInfinity | NegInfinity

text \<open>
  What the host does and the repository does not define is a parameter of the model:
  \<^item> \<open>round_double\<close>, the rounding of the exact result of an arithmetic operation on two
    finite doubles to the nearest double, or the overflow of that result beyond the
    largest double, so that sums, products and quotients are the ones of IEEE
    arithmetic, taken in the order in which the code takes them;
  \<^item> \<^verbatim>\<open>Number.prototype.toString\<close> on a finite number, \<^verbatim>\<open>String.prototype.localeCompare\<close>,
    the conversion of a string to a number, and the text that \<^verbatim>\<open>Function.prototype.toString\<close>
    gives for a method of \<^verbatim>\<open>Object.prototype\<close>.
  Every function that reaches one of them takes the environment as its first argument.
\<close>

datatype rounding = Nearest rat | Overflow

record js_env =
  numberToString :: "rat \<Rightarrow> string"
  localeCompare :: "string \<Rightarrow> string \<Rightarrow> int"
  round_double :: "rat \<Rightarrow> rounding"
  stringToNumber :: "string \<Rightarrow> number"
  functionText :: "string \<Rightarrow> string"

text \<open>The double that an operation returns when its exact result is \<open>x\<close>.\<close>

definition to_double :: "js_env \<Rightarrow> rat \<Rightarrow> number" where
  "to_double env x =
     (case round_double env x of
        Nearest y \<Rightarrow> Finite y
      | Overflow \<Rightarrow> if 0 < x then PosInfinity else NegInfinity)"

fun toString :: "js_env \<Rightarrow> jsval \<Rightarrow> string" where
  "toString env (JStr s) = s"
| "toString env (JNum x) = numberToString env x"
| "toString env (JBool b) = (if b then ''true'' else ''false'')"
| "toString env JNull = ''null''"

fun number_toString :: "js_env \<Rightarrow> number \<Rightarrow> string" where
  "number_toString env (Finite x) = numberToString env x"
| "number_toString env NaN = ''NaN''"
| "number_toString env PosInfinity = ''Infinity''"
| "number_toString env NegInfinity = ''-Infinity''"

text \<open>Truthiness, as \<^verbatim>\<open>!v\<close>, \<^verbatim>\<open>v && e\<close> and \<^verbatim>\<open>v || e\<close> read a value.\<close>

fun truthy :: "jsval \<Rightarrow> bool" where
  "truthy (JStr s) = (s \<noteq> [])"
| "truthy (JNum x) = (x \<noteq> 0)"
| "truthy (JBool b) = b"
| "truthy JNull = False"

subsection \<open>Arithmetic on doubles\<close>

fun js_plus :: "js_env \<Rightarrow> number \<Rightarrow> number \<Rightarrow> number" where
  "js_plus env (Finite x) (Finite y) = to_double env (x + y)"
| "js_plus env NaN b = NaN"
| "js_plus env a NaN = NaN"
| "js_plus env PosInfinity NegInfinity = NaN"
| "js_plus env NegInfinity PosInfinity = NaN"
| "js_plus env PosInfinity b = PosInfinity"
| "js_plus env a PosInfinity = PosInfinity"
| "js_plus env NegInfinity b = NegInfinity"
| "js_plus env a NegInfinity = NegInfinity"

fun negate :: "number \<Rightarrow> number" where
  "negate (Finite x) = Finite (- x)"
| "negate NaN = NaN"
| "negate PosInfinity = NegInfinity"
| "negate NegInfinity = PosInfinity"

definition js_minus :: "js_env \<Rightarrow> number \<Rightarrow> number \<Rightarrow> number" where
  "js_minus env a b = js_plus env a (negate b)"

text \<open>The sign of a number, \<open>0\<close> for \<^verbatim>\<open>NaN\<close>: what a sort reads of its comparator.\<close>

fun sign_of :: "number \<Rightarrow> int" where
  "sign_of (Finite x) = (if x < 0 then - 1 else if x = 0 then 0 else 1)"
| "sign_of NaN = 0"
| "sign_of PosInfinity = 1"
| "sign_of NegInfinity = - 1"

fun js_times :: "js_env \<Rightarrow> number \<Rightarrow> number \<Rightarrow> number" where
  "js_times env (Finite x) (Finite y) = to_double env (x * y)"
| "js_times env a b =
     (if sign_of a * sign_of b = 0 then NaN
      else if 0 < sign_of a * sign_of b then PosInfinity else NegInfinity)"

text \<open>
  A quotient. A zero denominator is the positive zero (see above); a finite number
  divided by an infinity is a zero.
\<close>

fun js_div :: "js_env \<Rightarrow> number \<Rightarrow> number \<Rightarrow> number" where
  "js_div env (Finite x) (Finite y) =
     (if y \<noteq> 0 then to_double env (x / y)
      else if x = 0 then NaN
      else if 0 < x then PosInfinity else NegInfinity)"
| "js_div env NaN b = NaN"
| "js_div env a NaN = NaN"
| "js_div env (Finite x) b = Finite 0"
| "js_div env a (Finite y) =
     (if (0 < sign_of a) = (0 \<le> y) then PosInfinity else NegInfinity)"
| "js_div env a b = NaN"

subsection \<open>Values that the program computes\<close>

text \<open>
  A value accumulated by \<^verbatim>\<open>+=\<close> is a number, or a string once one operand has been a
  string. \<open>plus_cell\<close> is the operator \<^verbatim>\<open>+\<close> with such a value on the left and a cell on
  the right: concatenation as soon as one operand is a string, and the sum of the two
  numbers otherwise, \<^verbatim>\<open>true\<close> counting for 1 and \<^verbatim>\<open>false\<close> and \<^verbatim>\<open>null\<close> for 0.
\<close>

datatype computed = CNum number | CStr string

fun truthy_computed :: "computed \<Rightarrow> bool" where
  "truthy_computed (CNum (Finite x)) = (x \<noteq> 0)"
| "truthy_computed (CNum NaN) = False"
| "truthy_computed (CNum n) = True"
| "truthy_computed (CStr s) = (s \<noteq> [])"

fun to_number :: "js_env \<Rightarrow> computed \<Rightarrow> number" where
  "to_number env (CNum n) = n"
| "to_number env (CStr s) = stringToNumber env s"

fun plus_cell :: "js_env \<Rightarrow> computed \<Rightarrow> jsval \<Rightarrow> computed" where
  "plus_cell env (CStr s) c = CStr (s @ toString env c)"
| "plus_cell env (CNum a) (JStr t) = CStr (number_toString env a @ t)"
| "plus_cell env (CNum a) (JNum x) = CNum (js_plus env a (Finite x))"
| "plus_cell env (CNum a) (JBool b) = CNum (js_plus env a (Finite (if b then 1 else 0)))"
| "plus_cell env (CNum a) JNull = CNum (js_plus env a (Finite 0))"

subsection \<open>Strings\<close>

definition is_white_space :: "char \<Rightarrow> bool" where
  "is_white_space c = ((of_char c :: nat) \<in> {9, 10, 11, 12, 13, 32, 160})"

definition trim :: "string \<Rightarrow> string" where
  "trim s = rev (dropWhile is_white_space (rev (dropWhile is_white_space s)))"

definition lower_char :: "char \<Rightarrow> char" where
  "lower_char c =
     (let n = (of_char c :: nat) in
      if (65 \<le> n \<and> n \<le> 90) \<or> (192 \<le> n \<and> n \<le> 214) \<or> (216 \<le> n \<and> n \<le> 222)
      then char_of (n + 32) else c)"

definition toLowerCase :: "string \<Rightarrow> string" where
  "toLowerCase s = map lower_char s"

text \<open>\<^verbatim>\<open>s.includes(t)\<close>: \<open>t\<close> occurs in \<open>s\<close> as a contiguous run.\<close>

fun str_includes :: "string \<Rightarrow> string \<Rightarrow> bool" where
  "str_includes [] t = (t = [])"
| "str_includes (c # cs) t = (prefix t (c # cs) \<or> str_includes cs t)"

definition substring_0_7 :: "string \<Rightarrow> string" where
  "substring_0_7 s = take 7 s"

section \<open>Record normalizer\<close>

text \<open>
  The normalized record. Its \<open>Total\<close> is a number by construction: the normalizer
  pushes an item only after \<^verbatim>\<open>typeof item.Total !== 'number'\<close> has failed, and the
  other seven fields are whatever the parser produced.
\<close>

record item =
  Date :: jsval
  Store :: jsval
  Category :: jsval
  Item :: jsval
  Quantity :: jsval
  Unit :: jsval
  Price :: jsval
  Total :: rat

text \<open>
  One turn of the \<^verbatim>\<open>parsedData.data.forEach\<close> loop of \<^verbatim>\<open>processData\<close> (and of
  \<^verbatim>\<open>loadData\<close> in the search view, which has the same body): \<open>None\<close> is an early
  \<^verbatim>\<open>return\<close>, \<open>Some\<close> the item pushed on \<^verbatim>\<open>cleanedData\<close>.
\<close>

definition cleanRow :: "jsval list \<Rightarrow> item option" where
  "cleanRow row =
     (if length row < 8 then None
      else (case row ! 7 of
              JNum t \<Rightarrow>
                Some \<lparr>Date = row ! 0, Store = row ! 1, Category = row ! 2, Item = row ! 3,
                      Quantity = row ! 4, Unit = row ! 5, Price = row ! 6, Total = t\<rparr>
            | _ \<Rightarrow> None))"

fun cleanData :: "jsval list list \<Rightarrow> item list" where
  "cleanData [] = []"
| "cleanData (row # rows) =
     (case cleanRow row of None \<Rightarrow> cleanData rows | Some it \<Rightarrow> it # cleanData rows)"

text \<open>A row that the normalizer turns into a given record: its eight cells in order.\<close>

definition row_of :: "item \<Rightarrow> jsval list" where
  "row_of it = [Date it, Store it, Category it, Item it, Quantity it, Unit it, Price it,
                JNum (Total it)]"

text \<open>The acceptance test, as the specification words it.\<close>

definition accepted :: "jsval list \<Rightarrow> bool" where
  "accepted row = (8 \<le> length row \<and> (\<exists>t. row ! 7 = JNum t))"

section \<open>Fixed-point formatting\<close>

fun digits :: "nat \<Rightarrow> string" where
  "digits n = (if n < 10 then [char_of (48 + n)] else digits (n div 10) @ [char_of (48 + n mod 10)])"

declare digits.simps [simp del]

text \<open>
  The digits of \<open>n\<close> with a point before the last \<open>f\<close> of them, padded with zeros on
  the left to \<open>f + 1\<close> digits: the formatting steps of \<^verbatim>\<open>Number.prototype.toFixed\<close>.
\<close>

definition fixed_digits :: "nat \<Rightarrow> nat \<Rightarrow> string" where
  "fixed_digits f n =
     (let m = digits n in
      if f = 0 then m
      else (let m' = (if length m \<le> f then replicate (f + 1 - length m) (CHR ''0'') @ m else m);
                k = length m'
            in take (k - f) m' @ ''.'' @ drop (k - f) m'))"

text \<open>
  \<^verbatim>\<open>x.toFixed(f)\<close> works on the exact value of the double \<open>x\<close>: the sign is split off,
  then the nearest multiple of \<open>1 / 10 ^ f\<close> is taken, the larger one on a tie; from
  \<open>10 ^ 21\<close> on the host prints the number as \<^verbatim>\<open>toString\<close> does.
\<close>

definition toFixed :: "js_env \<Rightarrow> nat \<Rightarrow> number \<Rightarrow> string" where
  "toFixed env f v =
     (case v of
        NaN \<Rightarrow> ''NaN''
      | PosInfinity \<Rightarrow> ''Infinity''
      | NegInfinity \<Rightarrow> ''-Infinity''
      | Finite x \<Rightarrow>
          (if x < 0 then ''-'' else []) @
          (if 10 ^ 21 \<le> \<bar>x\<bar> then numberToString env \<bar>x\<bar>
           else fixed_digits f (nat \<lfloor>\<bar>x\<bar> * 10 ^ f + 1 / 2\<rfloor>)))"

text \<open>Reading a fixed-point string back: the rational it spells, if it spells one.\<close>

definition is_digit :: "char \<Rightarrow> bool" where
  "is_digit c = (48 \<le> (of_char c :: nat) \<and> (of_char c :: nat) \<le> 57)"

definition digits_val :: "string \<Rightarrow> int" where
  "digits_val s = foldl (\<lambda>a c. 10 * a + ((of_char c :: int) - 48)) 0 s"





section \<open>Objects used as dictionaries\<close>

text \<open>
  An object literal \<^verbatim>\<open>{}\<close> filled by \<^verbatim>\<open>obj[key] = v\<close> is an association list of its own
  properties, in insertion order and with distinct keys.
\<close>

type_synonym 'v object = "(string \<times> 'v) list"

fun obj_set :: "string \<Rightarrow> 'v \<Rightarrow> 'v object \<Rightarrow> 'v object" where
  "obj_set k v [] = [(k, v)]"
| "obj_set k v (e # es) = (if fst e = k then (k, v) # es else e # obj_set k v es)"

text \<open>
  A read \<^verbatim>\<open>obj[key]\<close> of a key that is not an own property goes to \<^verbatim>\<open>Object.prototype\<close>.
  There it finds a function under the name of each method, and under \<^verbatim>\<open>__proto__\<close> an
  accessor that returns the prototype itself: both are truthy, so the test
  \<^verbatim>\<open>if (!obj[key])\<close> does not create the key. A write \<^verbatim>\<open>obj.__proto__ = v\<close> of a value
  that is not an object is ignored by the accessor; a write under a method name creates
  an own property. The members are the ones of a browser.

  A loop that updates \<^verbatim>\<open>obj[key].field\<close> under an inherited name writes on the
  inherited member and leaves the object as it is: on the function, under the name of a
  method, where no later read looks, and on the prototype itself under \<^verbatim>\<open>__proto__\<close>.
  What the loops of \<^verbatim>\<open>processData\<close> leave on the prototype in this way is \<^verbatim>\<open>NaN\<close>
  under the names \<^verbatim>\<open>count\<close>, \<^verbatim>\<open>total\<close> and \<^verbatim>\<open>items\<close>, which a test \<^verbatim>\<open>!obj[key]\<close>
  does not tell from an absent key. The purchase history loop of the search view leaves
  a string under the name \<^verbatim>\<open>quantity\<close> when a record dated \<^verbatim>\<open>__proto__\<close> has a
  Quantity that is a string; the model is the one of a page in which no such record
  has been searched, and does not follow that write.
\<close>

definition inherited_method :: "string \<Rightarrow> bool" where
  "inherited_method k =
     (k \<in> set [''constructor'', ''hasOwnProperty'', ''isPrototypeOf'', ''propertyIsEnumerable'',
               ''toLocaleString'', ''toString'', ''valueOf'', ''__defineGetter__'',
               ''__defineSetter__'', ''__lookupGetter__'', ''__lookupSetter__''])"

definition inherited :: "string \<Rightarrow> bool" where
  "inherited k = (inherited_method k \<or> k = ''__proto__'')"

text \<open>
  \<^verbatim>\<open>Object.entries\<close>, \<^verbatim>\<open>Object.values\<close> and \<^verbatim>\<open>Object.keys\<close> list the keys that are
  array indices first, in ascending numeric order, and the other keys after them in
  insertion order.
\<close>

definition is_array_index :: "string \<Rightarrow> bool" where
  "is_array_index k =
     (k \<noteq> [] \<and> list_all is_digit k \<and> (k = ''0'' \<or> hd k \<noteq> CHR ''0'') \<and>
      digits_val k < 4294967295)"

definition own_entries :: "'v object \<Rightarrow> 'v object" where
  "own_entries obj =
     sort_key (\<lambda>e. digits_val (fst e)) (filter (\<lambda>e. is_array_index (fst e)) obj) @
     filter (\<lambda>e. \<not> is_array_index (fst e)) obj"

text \<open>
  \<^verbatim>\<open>if (!obj[k]) { obj[k] = 0; }  obj[k] += t;\<close>
  \<^item> An own value that is falsy (\<^verbatim>\<open>0\<close>, \<^verbatim>\<open>NaN\<close>, the empty string) is set to \<^verbatim>\<open>0\<close> first.
  \<^item> Under \<^verbatim>\<open>__proto__\<close> the test finds the prototype and the write is ignored.
  \<^item> Under the name of a method the test finds the function, and \<^verbatim>\<open>+=\<close> stores the
    text of the function followed by the number, as an own property.
  \<^item> Under any other new key the value is set to \<^verbatim>\<open>0\<close> and the number is added.
\<close>

definition add_to :: "js_env \<Rightarrow> string \<Rightarrow> rat \<Rightarrow> computed object \<Rightarrow> computed object" where
  "add_to env k t obj =
     (case map_of obj k of
        Some v \<Rightarrow>
          obj_set k (plus_cell env (if truthy_computed v then v else CNum (Finite 0)) (JNum t)) obj
      | None \<Rightarrow>
          if k = ''__proto__'' then obj
          else if inherited_method k
          then obj_set k (CStr (functionText env k @ numberToString env t)) obj
          else obj_set k (plus_cell env (CNum (Finite 0)) (JNum t)) obj)"

text \<open>
  The sum of a list of numbers as the code takes it, from \<^verbatim>\<open>0\<close> and in the order of
  the list: \<^verbatim>\<open>ts.reduce((sum, t) => sum + t, 0)\<close>.
\<close>

definition js_sum :: "js_env \<Rightarrow> rat list \<Rightarrow> number" where
  "js_sum env ts = foldl (\<lambda>n t. js_plus env n (Finite t)) (Finite 0) ts"

text \<open>The same sum continued from a number \<open>n\<close>, and the number under a key of an object.\<close>

definition sum_from :: "js_env \<Rightarrow> number \<Rightarrow> rat list \<Rightarrow> number" where
  "sum_from env n ts = foldl (\<lambda>n t. js_plus env n (Finite t)) n ts"

definition num_at :: "computed object \<Rightarrow> string \<Rightarrow> number" where
  "num_at obj k = (case map_of obj k of Some (CNum n) \<Rightarrow> n | _ \<Rightarrow> Finite 0)"

section \<open>Sorting\<close>

text \<open>
  \<^verbatim>\<open>Array.prototype.sort\<close> with a comparator is stable: \<open>a\<close> stays before \<open>b\<close> unless
  the comparator is positive on \<open>(a, b)\<close>. The comparator is given by its sign. (Where
  a comparator is not consistent the language leaves the order to the host; no property
  below depends on the order of such a sort.)
\<close>

fun insert_by :: "('a \<Rightarrow> 'a \<Rightarrow> 'n::linordered_idom) \<Rightarrow> 'a \<Rightarrow> 'a list \<Rightarrow> 'a list" where
  "insert_by cmp x [] = [x]"
| "insert_by cmp x (y # ys) = (if cmp x y \<le> 0 then x # y # ys else y # insert_by cmp x ys)"

fun js_sort :: "('a \<Rightarrow> 'a \<Rightarrow> 'n::linordered_idom) \<Rightarrow> 'a list \<Rightarrow> 'a list" where
  "js_sort cmp [] = []"
| "js_sort cmp (x # xs) = insert_by cmp x (js_sort cmp xs)"

section \<open>Aggregation pipeline of \<^verbatim>\<open>processData\<close>\<close>

text \<open>
  Each \<^verbatim>\<open>forEach\<close> over \<^verbatim>\<open>cleanedData\<close> that fills an object is a left fold of its
  body. \<^verbatim>\<open>cleanedData.reduce((sum, item) => sum + item.Total, 0)\<close> is written three
  times in the source; it is \<open>sumTotal\<close> here. Fields that occur in several object
  literals of the source carry a prefix that tells them apart. A count is a natural
  number: \<^verbatim>\<open>count++\<close> and the difference of two counts are exact on doubles.
\<close>

definition sumTotal :: "js_env \<Rightarrow> item list \<Rightarrow> number" where
  "sumTotal env cleanedData =
     foldl (\<lambda>sum it. js_plus env sum (Finite (Total it))) (Finite 0) cleanedData"

record summary_entry =
  entry_name :: string
  entry_value :: computed
  percentage :: string

definition summaryArray :: "js_env \<Rightarrow> item list \<Rightarrow> computed object \<Rightarrow> summary_entry list" where
  "summaryArray env cleanedData obj =
     js_sort (\<lambda>a b. sign_of (js_minus env (to_number env (entry_value b))
                                          (to_number env (entry_value a))))
       (map (\<lambda>(name, spent).
               \<lparr>entry_name = name, entry_value = spent,
                percentage = toFixed env 1
                  (js_div env (js_times env (to_number env spent) (Finite 100))
                              (sumTotal env cleanedData))\<rparr>)
            (own_entries obj))"

subsection \<open>Category data\<close>

definition categories :: "js_env \<Rightarrow> item list \<Rightarrow> computed object" where
  "categories env cleanedData =
     foldl (\<lambda>cats it.
              if Category it \<noteq> JStr ''CRV''
              then add_to env (toString env (Category it)) (Total it) cats
              else cats)
           [] cleanedData"

definition categoryArray :: "js_env \<Rightarrow> item list \<Rightarrow> summary_entry list" where
  "categoryArray env cleanedData = summaryArray env cleanedData (categories env cleanedData)"

text \<open>The Totals that a category entry is made of: those of its rows outside \<^verbatim>\<open>CRV\<close>, in order.\<close>

definition category_totals :: "js_env \<Rightarrow> item list \<Rightarrow> string \<Rightarrow> rat list" where
  "category_totals env cleanedData k =
     map Total (filter (\<lambda>r. Category r \<noteq> JStr ''CRV'' \<and> toString env (Category r) = k)
                  cleanedData)"

subsection \<open>Store data\<close>

definition stores :: "js_env \<Rightarrow> item list \<Rightarrow> computed object" where
  "stores env cleanedData =
     foldl (\<lambda>sts it. add_to env (toString env (Store it)) (Total it) sts) [] cleanedData"

definition storeArray :: "js_env \<Rightarrow> item list \<Rightarrow> summary_entry list" where
  "storeArray env cleanedData = summaryArray env cleanedData (stores env cleanedData)"

definition store_totals :: "js_env \<Rightarrow> item list \<Rightarrow> string \<Rightarrow> rat list" where
  "store_totals env cleanedData k =
     map Total (filter (\<lambda>r. toString env (Store r) = k) cleanedData)"

text \<open>
  The sum of the values of a summary, as the specification speaks of it: the values
  added up as numbers, in the order of the entries.
\<close>

definition sum_values :: "js_env \<Rightarrow> summary_entry list \<Rightarrow> number" where
  "sum_values env es =
     foldl (\<lambda>n e. js_plus env n (to_number env (entry_value e))) (Finite 0) es"

subsection \<open>Monthly data\<close>

record month_entry =
  month :: string
  spent :: computed

definition months :: "js_env \<Rightarrow> item list \<Rightarrow> computed object" where
  "months env cleanedData =
     foldl (\<lambda>ms it.
              case Date it of
                JStr d \<Rightarrow>
                  if str_includes d ''-'' then add_to env (substring_0_7 d) (Total it) ms else ms
              | _ \<Rightarrow> ms)
           [] cleanedData"

definition monthArray :: "js_env \<Rightarrow> item list \<Rightarrow> month_entry list" where
  "monthArray env cleanedData =
     js_sort (\<lambda>a b. localeCompare env (month a) (month b))
       (map (\<lambda>(m, s). \<lparr>month = m, spent = s\<rparr>) (own_entries (months env cleanedData)))"

text \<open>The rows that reach the monthly summary, and the key each of them is filed under.\<close>

definition has_month :: "item \<Rightarrow> bool" where
  "has_month it = (case Date it of JStr d \<Rightarrow> str_includes d ''-'' | _ \<Rightarrow> False)"

definition month_key :: "item \<Rightarrow> string" where
  "month_key it = (case Date it of JStr d \<Rightarrow> substring_0_7 d | _ \<Rightarrow> [])"

subsection \<open>Top items\<close>

record item_stats =
  stat_count :: nat
  stat_total :: number
  stat_category :: jsval

record top_item =
  top_name :: string
  top_count :: nat
  top_total :: number
  top_category :: jsval
  avgPrice :: string

text \<open>
  The body of the loop over rows. A new entry is created with the category of the row,
  unless \<^verbatim>\<open>items[row.Item]\<close> finds an inherited member: then \<^verbatim>\<open>count++\<close> and
  \<^verbatim>\<open>total += row.Total\<close> are done on that member, and \<open>items\<close> gets no key.
\<close>

definition add_item :: "js_env \<Rightarrow> item_stats object \<Rightarrow> item \<Rightarrow> item_stats object" where
  "add_item env items row =
     (if Category row \<noteq> JStr ''CRV'' then
        (let k = toString env (Item row) in
         case map_of items k of
           None \<Rightarrow>
             if inherited k then items
             else obj_set k \<lparr>stat_count = 0 + 1,
                             stat_total = js_plus env (Finite 0) (Finite (Total row)),
                             stat_category = Category row\<rparr> items
         | Some s \<Rightarrow>
             obj_set k (s\<lparr>stat_count := stat_count s + 1,
                          stat_total := js_plus env (stat_total s) (Finite (Total row))\<rparr>) items)
      else items)"

definition items :: "js_env \<Rightarrow> item list \<Rightarrow> item_stats object" where
  "items env cleanedData = foldl (add_item env) [] cleanedData"

definition itemArray :: "js_env \<Rightarrow> item list \<Rightarrow> top_item list" where
  "itemArray env cleanedData =
     take 10
       (js_sort (\<lambda>a b. int (top_count b) - int (top_count a))
          (map (\<lambda>(name, stats).
                  \<lparr>top_name = name, top_count = stat_count stats, top_total = stat_total stats,
                   top_category = stat_category stats,
                   avgPrice = toFixed env 2
                     (js_div env (stat_total stats) (Finite (of_nat (stat_count stats))))\<rparr>)
               (filter (\<lambda>(name, stats). stat_category stats \<noteq> JStr ''CRV'')
                  (own_entries (items env cleanedData)))))"


subsection \<open>Overall statistics\<close>

record trip =
  trip_total :: number
  trip_items :: nat

text \<open>
  The trip key is the template literal \<^verbatim>\<open>`${item.Date}`\<close>: the date as a string. Under
  an inherited name the test \<^verbatim>\<open>!trips[tripKey]\<close> fails, the two updates are done on the
  inherited member, and \<open>trips\<close> gets no key.
\<close>

definition add_trip :: "js_env \<Rightarrow> trip object \<Rightarrow> item \<Rightarrow> trip object" where
  "add_trip env trips it =
     (let tripKey = toString env (Date it) in
      case map_of trips tripKey of
        None \<Rightarrow>
          if inherited tripKey then trips
          else obj_set tripKey \<lparr>trip_total = js_plus env (Finite 0) (Finite (Total it)),
                                 trip_items = 0 + 1\<rparr> trips
      | Some t \<Rightarrow>
          obj_set tripKey (t\<lparr>trip_total := js_plus env (trip_total t) (Finite (Total it)),
                             trip_items := trip_items t + 1\<rparr>) trips)"

definition trips :: "js_env \<Rightarrow> item list \<Rightarrow> trip object" where
  "trips env cleanedData = foldl (add_trip env) [] cleanedData"

record stats =
  totalSpent :: number
  avgPerTrip :: number
  totalTrips :: nat
  totalItems :: nat

definition overallStats :: "js_env \<Rightarrow> item list \<Rightarrow> stats" where
  "overallStats env cleanedData =
     (let totalSpent = sumTotal env cleanedData;
          totalTrips = length (own_entries (trips env cleanedData))
      in \<lparr>totalSpent = totalSpent,
          avgPerTrip = js_div env totalSpent (Finite (of_nat totalTrips)),
          totalTrips = totalTrips,
          totalItems = length cleanedData\<rparr>)"

text \<open>The number of distinct Date strings of a record set, as the specification counts trips.\<close>

definition distinct_dates :: "js_env \<Rightarrow> item list \<Rightarrow> nat" where
  "distinct_dates env cleanedData =
     length (remdups (map (\<lambda>r. toString env (Date r)) cleanedData))"

subsection \<open>The whole of \<^verbatim>\<open>processData\<close>\<close>

record dashboard =
  dash_data :: "item list"
  categoryData :: "summary_entry list"
  storeData :: "summary_entry list"
  monthlyData :: "month_entry list"
  topItems :: "top_item list"
  dash_stats :: stats
  fileUploaded :: bool
  dash_loading :: bool

text \<open>
  \<open>parsedData\<close> stands for \<^verbatim>\<open>Papa.parse(csvData, ...).data\<close>: the rows the parser
  returns. Every state setter of the function is one field of the result.
\<close>

definition processData :: "js_env \<Rightarrow> jsval list list \<Rightarrow> dashboard" where
  "processData env parsedData =
     (let cleanedData = cleanData parsedData in
      \<lparr>dash_data = cleanedData,
       categoryData = categoryArray env cleanedData,
       storeData = storeArray env cleanedData,
       monthlyData = monthArray env cleanedData,
       topItems = itemArray env cleanedData,
       dash_stats = overallStats env cleanedData,
       fileUploaded = True,
       dash_loading = False\<rparr>)"

section \<open>Search view: \<^verbatim>\<open>handleSearch\<close>\<close>

record purchase_entry =
  date :: string
  quantity :: computed
  purchase_total :: number

record price_entry =
  price_date :: string
  price :: jsval

record search_state =
  data :: "item list"
  searchTerm :: string
  searchResults :: "item list"
  search_totalSpent :: number
  purchaseHistory :: "purchase_entry list"
  priceHistory :: "price_entry list"
  loading :: bool

text \<open>
  One row of the purchase history loop: \<^verbatim>\<open>quantity += item.Quantity || 1\<close> is the
  operator \<^verbatim>\<open>+\<close> of the host on whatever the quantity cell holds. Under a date that is
  an inherited name the updates are done on the inherited member and the history gets
  no key.
\<close>

definition add_purchase :: "js_env \<Rightarrow> purchase_entry object \<Rightarrow> item \<Rightarrow> purchase_entry object" where
  "add_purchase env historyByDate it =
     (case Date it of
        JStr d \<Rightarrow>
          (let q = (if truthy (Quantity it) then Quantity it else JNum 1) in
           case map_of historyByDate d of
             None \<Rightarrow>
               if inherited d then historyByDate
               else obj_set d \<lparr>date = d, quantity = plus_cell env (CNum (Finite 0)) q,
                               purchase_total = js_plus env (Finite 0) (Finite (Total it))\<rparr>
                      historyByDate
           | Some e \<Rightarrow>
               obj_set d
                 (e\<lparr>quantity := plus_cell env (quantity e) q,
                    purchase_total := js_plus env (purchase_total e) (Finite (Total it))\<rparr>)
                 historyByDate)
      | _ \<Rightarrow> historyByDate)"

text \<open>
  One row of the price loop. The test \<^verbatim>\<open>!priceByDate[date]\<close> fails on an own entry and
  on an inherited member alike.
\<close>

definition add_price :: "price_entry object \<Rightarrow> item \<Rightarrow> price_entry object" where
  "add_price priceByDate it =
     (case Date it of
        JStr d \<Rightarrow>
          if truthy (Price it) \<and> truthy (Quantity it) then
            (case map_of priceByDate d of
               None \<Rightarrow>
                 if inherited d then priceByDate
                 else obj_set d \<lparr>price_date = d, price = Price it\<rparr> priceByDate
             | Some e \<Rightarrow> priceByDate)
          else priceByDate
      | _ \<Rightarrow> priceByDate)"

definition matches :: "js_env \<Rightarrow> string \<Rightarrow> item \<Rightarrow> bool" where
  "matches env term it =
     (truthy (Item it) \<and> str_includes (toLowerCase (toString env (Item it))) term)"

text \<open>
  The two histories are computed inside \<^verbatim>\<open>handleSearch\<close> from \<^verbatim>\<open>results\<close> alone;
  each is a function of its own here.
\<close>

definition purchaseArray :: "js_env \<Rightarrow> item list \<Rightarrow> purchase_entry list" where
  "purchaseArray env results =
     js_sort (\<lambda>a b. localeCompare env (date a) (date b))
       (map snd (own_entries (foldl (add_purchase env) [] results)))"

definition priceArray :: "js_env \<Rightarrow> item list \<Rightarrow> price_entry list" where
  "priceArray env results =
     js_sort (\<lambda>a b. localeCompare env (price_date a) (price_date b))
       (map snd (own_entries (foldl add_price [] results)))"

definition handleSearch :: "js_env \<Rightarrow> search_state \<Rightarrow> search_state" where
  "handleSearch env st =
     (if trim (searchTerm st) = [] then st
      else
        (let term = toLowerCase (searchTerm st);
             results = filter (matches env term) (data st);
             total = foldl (\<lambda>sum it. js_plus env sum (Finite (Total it))) (Finite 0) results
         in st\<lparr>searchResults := results, search_totalSpent := total,
                purchaseHistory := purchaseArray env results,
                priceHistory := priceArray env results\<rparr>))"

text \<open>
  The containment that the specification asks of a result: the Item, as a string,
  contains the term as a substring, whatever the case of the letters.
\<close>

definition item_contains :: "js_env \<Rightarrow> string \<Rightarrow> item \<Rightarrow> bool" where
  "item_contains env term it =
     sublist (toLowerCase term) (toLowerCase (toString env (Item it)))"



section \<open>Order of the comparator, and an instance of the environment\<close>

text \<open>
  What a sort needs of its comparator: any two elements are comparable, and the
  comparison is transitive. \<^verbatim>\<open>localeCompare\<close> is such a comparator in every locale.
\<close>

definition total_preorder :: "('a \<Rightarrow> 'a \<Rightarrow> 'n::linordered_idom) \<Rightarrow> bool" where
  "total_preorder cmp =
     ((\<forall>a b. cmp a b \<le> 0 \<or> cmp b a \<le> 0) \<and>
      (\<forall>a b c. cmp a b \<le> 0 \<and> cmp b c \<le> 0 \<longrightarrow> cmp a c \<le> 0))"

text \<open>
  The instance used in the examples below.
  \<^item> Its \<^verbatim>\<open>localeCompare\<close> is the lexical order of strings by code unit.
  \<^item> Its rounding is the one of IEEE 754 binary64 arithmetic: to the nearest number
    \<open>n * 2 ^ k\<close> with \<open>n < 2 ^ 53\<close> and \<open>- 1074 \<le> k\<close>, to the one with an even \<open>n\<close> on a
    tie, and an overflow from \<open>2 ^ 1024\<close> on.
  \<^item> Its \<^verbatim>\<open>toString\<close> prints the decimal expansion of a number, up to 20 decimals, as
    the host does for the numbers of the examples that are printed, which have few.
  \<^item> The strings that the examples turn into numbers are texts of functions, which are
    \<^verbatim>\<open>NaN\<close>, and the text of a method is the one a browser prints.
\<close>

definition pow2 :: "int \<Rightarrow> rat" where
  "pow2 k = (if 0 \<le> k then 2 ^ nat k else 1 / 2 ^ nat (- k))"

text \<open>The largest \<open>e\<close> with \<open>2 ^ e \<le> a\<close>, for a positive \<open>a\<close>.\<close>

definition floor_log2 :: "rat \<Rightarrow> int" where
  "floor_log2 a =
     (let (p, q) = quotient_of a; e = bitlen p - bitlen q
      in if pow2 e \<le> a then e else e - 1)"

definition round_half_even :: "rat \<Rightarrow> int" where
  "round_half_even r =
     (let f = \<lfloor>r\<rfloor>; d = r - of_int f
      in if d < 1 / 2 then f else if 1 / 2 < d then f + 1 else if even f then f else f + 1)"

definition nearest_double :: "rat \<Rightarrow> rounding" where
  "nearest_double x =
     (if x = 0 then Nearest 0
      else
        (let a = \<bar>x\<bar>;
             e = max (floor_log2 a) (- 1022);
             n = round_half_even (a / pow2 (e - 52))
         in if 1024 \<le> e \<or> (e = 1023 \<and> n = 2 ^ 53) then Overflow
            else Nearest ((if x < 0 then - 1 else 1) * of_int n * pow2 (e - 52))))"

text \<open>The double that the parser reads from a decimal number.\<close>

definition double_of :: "rat \<Rightarrow> rat" where
  "double_of x = (case nearest_double x of Nearest y \<Rightarrow> y | Overflow \<Rightarrow> 0)"

fun code_unit_compare :: "string \<Rightarrow> string \<Rightarrow> int" where
  "code_unit_compare [] [] = 0"
| "code_unit_compare [] (y # ys) = - 1"
| "code_unit_compare (x # xs) [] = 1"
| "code_unit_compare (x # xs) (y # ys) =
     (if (of_char x :: nat) < of_char y then - 1
      else if (of_char y :: nat) < of_char x then 1
      else code_unit_compare xs ys)"

fun fraction_digits :: "nat \<Rightarrow> rat \<Rightarrow> string" where
  "fraction_digits 0 r = []"
| "fraction_digits (Suc n) r =
     (if r = 0 then []
      else digits (nat \<lfloor>r * 10\<rfloor>) @ fraction_digits n (r * 10 - of_int \<lfloor>r * 10\<rfloor>))"

definition decimal_text :: "rat \<Rightarrow> string" where
  "decimal_text x =
     (if x < 0 then ''-'' else []) @ digits (nat \<lfloor>\<bar>x\<bar>\<rfloor>) @
     (if \<bar>x\<bar> = of_int \<lfloor>\<bar>x\<bar>\<rfloor> then []
      else ''.'' @ fraction_digits 20 (\<bar>x\<bar> - of_int \<lfloor>\<bar>x\<bar>\<rfloor>))"

definition example_env :: js_env where
  "example_env =
     \<lparr>numberToString = decimal_text,
      localeCompare = code_unit_compare,
      round_double = nearest_double,
      stringToNumber = (\<lambda>s. NaN),
      functionText = (\<lambda>k. ''function '' @ (if k = ''constructor'' then ''Object'' else k)
                             @ ''() { [native code] }'')\<rparr>"

definition short_row :: "jsval list" where
  "short_row = [JStr ''2025-01-05'', JStr ''Market'', JStr ''Dairy'', JStr ''Whole Milk'',
                JNum 1, JStr ''gal'']"

definition na_row :: "jsval list" where
  "na_row = [JStr ''2025-01-05'', JStr ''Market'', JStr ''Dairy'', JStr ''Whole Milk'',
             JNum 1, JStr ''gal'', JNum (7 / 2), JStr ''N/A'']"

definition odd_quantity_row :: "jsval list" where
  "odd_quantity_row = [JStr ''2025-01-06'', JStr ''Market'', JStr ''Dairy'', JStr ''Almond Milk'',
                       JStr ''two'', JNull, JBool True, JNum 4]"

definition long_row :: "jsval list" where
  "long_row = [JStr ''2025-01-05'', JStr ''Market'', JStr ''Dairy'', JStr ''Whole Milk'',
               JNum 1, JStr ''gal'', JNum (7 / 2), JNum (7 / 2), JStr ''extra'', JNum 9]"

definition whole_milk :: item where
  "whole_milk =
     \<lparr>Date = JStr ''2025-01-05'', Store = JStr ''Market'', Category = JStr ''Dairy'',
      Item = JStr ''Whole Milk'', Quantity = JNum 1, Unit = JStr ''gal'',
      Price = JNum (7 / 2), Total = 7 / 2\<rparr>"

definition almond_milk :: item where
  "almond_milk =
     \<lparr>Date = JStr ''2025-01-06'', Store = JStr ''Market'', Category = JStr ''Dairy'',
      Item = JStr ''Almond Milk'', Quantity = JNum 1, Unit = JStr ''qt'',
      Price = JNum 4, Total = 4\<rparr>"

definition crv_deposit :: item where
  "crv_deposit =
     \<lparr>Date = JStr ''2025-01-05'', Store = JStr ''Market'', Category = JStr ''CRV'',
      Item = JStr ''CRV'', Quantity = JNum 1, Unit = JNull,
      Price = JNum (1 / 2), Total = 1 / 2\<rparr>"

definition undated_item :: item where
  "undated_item =
     \<lparr>Date = JStr ''Jan 5 2025'', Store = JStr ''Market'', Category = JStr ''Dairy'',
      Item = JStr ''Whole Milk'', Quantity = JNum 1, Unit = JStr ''gal'',
      Price = JNum (7 / 2), Total = 7 / 2\<rparr>"

definition february_milk :: item where
  "february_milk =
     \<lparr>Date = JStr ''2025-02-03'', Store = JStr ''Corner Shop'', Category = JStr ''Dairy'',
      Item = JStr ''Oat Milk'', Quantity = JNum 2, Unit = JStr ''qt'',
      Price = JNum 3, Total = 6\<rparr>"

definition searched_state :: search_state where
  "searched_state =
     \<lparr>data = [whole_milk, almond_milk], searchTerm = [CHR '' '', CHR 0x09],
      searchResults = [whole_milk], search_totalSpent = Finite (7 / 2),
      purchaseHistory = [\<lparr>date = ''2025-01-05'', quantity = CNum (Finite 1),
                          purchase_total = Finite (7 / 2)\<rparr>],
      priceHistory = [\<lparr>price_date = ''2025-01-05'', price = JNum (7 / 2)\<rparr>],
      loading = False\<rparr>"

definition bread :: item where
  "bread =
     \<lparr>Date = JStr ''2025-01-05'', Store = JStr ''Market'', Category = JStr ''Bakery'',
      Item = JStr ''Sourdough Bread'', Quantity = JNum 1, Unit = JStr ''loaf'',
      Price = JNum 6, Total = 6\<rparr>"

definition milk_query :: search_state where
  "milk_query =
     \<lparr>data = [whole_milk, bread, almond_milk], searchTerm = ''milk'',
      searchResults = [], search_totalSpent = Finite 0, purchaseHistory = [], priceHistory = [],
      loading = False\<rparr>"

definition dairy_entry :: summary_entry where
  "dairy_entry =
     \<lparr>entry_name = ''Dairy'', entry_value = CNum (Finite (7 / 2)), percentage = ''87.5''\<rparr>"

definition milk_entry :: summary_entry where
  "milk_entry =
     \<lparr>entry_name = ''Dairy'', entry_value = CNum (Finite (15 / 2)), percentage = ''93.8''\<rparr>"

definition constructor_category :: item where
  "constructor_category =
     \<lparr>Date = JStr ''2025-01-05'', Store = JStr ''Market'', Category = JStr ''constructor'',
      Item = JStr ''Whole Milk'', Quantity = JNum 1, Unit = JStr ''gal'',
      Price = JNum (7 / 2), Total = 7 / 2\<rparr>"



definition constructor_date :: item where
  "constructor_date =
     \<lparr>Date = JStr ''constructor'', Store = JStr ''Market'', Category = JStr ''Dairy'',
      Item = JStr ''Whole Milk'', Quantity = JNum 1, Unit = JStr ''gal'',
      Price = JNum (7 / 2), Total = 7 / 2\<rparr>"

definition numbered_item :: item where
  "numbered_item =
     \<lparr>Date = JStr ''2025-01-05'', Store = JStr ''Market'', Category = JStr ''Produce'',
      Item = JNum 0, Quantity = JNum 1, Unit = JNull, Price = JNum 2, Total = 2\<rparr>"

definition zero_query :: search_state where
  "zero_query =
     \<lparr>data = [numbered_item], searchTerm = ''0'',
      searchResults = [], search_totalSpent = Finite 0, purchaseHistory = [], priceHistory = [],
      loading = False\<rparr>"



text \<open>A purchase of whole milk, given by its category and its Total.\<close>

definition purchase :: "string \<Rightarrow> rat \<Rightarrow> item" where
  "purchase c t =
     \<lparr>Date = JStr ''2025-01-05'', Store = JStr ''Market'', Category = JStr c,
      Item = JStr ''Whole Milk'', Quantity = JNum 1, Unit = JStr ''gal'',
      Price = JNum t, Total = t\<rparr>"

definition market_entry :: summary_entry where
  "market_entry =
     \<lparr>entry_name = ''Market'', entry_value = CNum (Finite 4), percentage = ''100.0''\<rparr>"

section \<open>Normalizer: properties\<close>

lemma cleanRow_accepted: "(cleanRow row \<noteq> None) = accepted row"
  by (auto simp: cleanRow_def accepted_def split: jsval.splits)

lemma cleanData_accepted:
  "map Some (cleanData rows) = map cleanRow (filter accepted rows)"
proof (induction rows)
  case Nil
  show ?case by simp
next
  case (Cons row rows)
  show ?case
  proof (cases "cleanRow row")
    case None
    then have "\<not> accepted row" using cleanRow_accepted [of row] by simp
    with None Cons show ?thesis by simp
  next
    case (Some it)
    then have "accepted row" using cleanRow_accepted [of row] by simp
    with Some Cons show ?thesis by simp
  qed
qed

text \<open>
  Every list of records is a normalized record set: the properties below, stated for
  any list \<open>cd\<close> of records, are properties of what the normalizer can return.
\<close>

lemma cleanRow_row_of: "cleanRow (row_of it) = Some it"
  by (simp add: cleanRow_def row_of_def)

lemma cleanData_onto: "cleanData (map row_of cd) = cd"
  by (induction cd) (simp_all add: cleanRow_row_of)

lemma processData_fields:
  "dash_data (processData env rows) = cleanData rows
   \<and> categoryData (processData env rows) = categoryArray env (cleanData rows)
   \<and> storeData (processData env rows) = storeArray env (cleanData rows)
   \<and> monthlyData (processData env rows) = monthArray env (cleanData rows)
   \<and> topItems (processData env rows) = itemArray env (cleanData rows)
   \<and> dash_stats (processData env rows) = overallStats env (cleanData rows)"
  by (simp add: processData_def Let_def)

text \<open>
  C2. The normalized record set is made of the records of the accepted rows, in their
  order, and of nothing else; a row is accepted, that is \<open>cleanRow\<close> makes a record of it,
  if and only if it has at least 8 values and its 8th value is a number. A row of 6 columns is rejected, a row whose 8th value is the
  string \<^verbatim>\<open>N/A\<close> is rejected, and two rows of the same length with the same 8th value
  are accepted or rejected together, whatever their other values are.
\<close>

theorem normalizer_acceptance:
  "map Some (cleanData rows) = map cleanRow (filter accepted rows)
   \<and> (\<forall>row. (cleanRow row \<noteq> None) = (8 \<le> length row \<and> (\<exists>t. row ! 7 = JNum t)))
   \<and> (\<forall>row. length row = 6 \<longrightarrow> cleanRow row = None)
   \<and> (\<forall>row. 8 \<le> length row \<and> row ! 7 = JStr ''N/A'' \<longrightarrow> cleanRow row = None)
   \<and> (\<forall>row row'. length row = length row' \<and> row ! 7 = row' ! 7
         \<longrightarrow> (cleanRow row = None) = (cleanRow row' = None))"
proof (intro conjI allI impI)
  show "map Some (cleanData rows) = map cleanRow (filter accepted rows)"
    by (rule cleanData_accepted)
next
  fix row
  show "(cleanRow row \<noteq> None) = (8 \<le> length row \<and> (\<exists>t. row ! 7 = JNum t))"
    using cleanRow_accepted [of row] by (simp add: accepted_def)
next
  fix row :: "jsval list"
  assume "length row = 6"
  then show "cleanRow row = None" by (simp add: cleanRow_def)
next
  fix row
  assume "8 \<le> length row \<and> row ! 7 = JStr ''N/A''"
  then show "cleanRow row = None" by (simp add: cleanRow_def)
next
  fix row row' :: "jsval list"
  assume "length row = length row' \<and> row ! 7 = row' ! 7"
  then show "(cleanRow row = None) = (cleanRow row' = None)"
    by (auto simp: cleanRow_def split: jsval.splits)
qed

theorem normalizer_acceptance_witness:
  "cleanData [short_row, na_row, odd_quantity_row] =
     [\<lparr>Date = JStr ''2025-01-06'', Store = JStr ''Market'', Category = JStr ''Dairy'',
       Item = JStr ''Almond Milk'', Quantity = JStr ''two'', Unit = JNull,
       Price = JBool True, Total = 4\<rparr>]
   \<and> cleanRow short_row = None \<and> cleanRow na_row = None"
proof -
  note acc = normalizer_acceptance [of "[short_row, na_row, odd_quantity_row]"]
  have short: "length short_row = 6" by (simp add: short_row_def)
  have na: "8 \<le> length na_row \<and> na_row ! 7 = JStr ''N/A''" by (simp add: na_row_def)
  have odd: "8 \<le> length odd_quantity_row \<and> (\<exists>t. odd_quantity_row ! 7 = JNum t)"
    by (simp add: odd_quantity_row_def)
  from acc short have 1: "cleanRow short_row = None" by blast
  from acc na have 2: "cleanRow na_row = None" by blast
  from acc odd have 3: "cleanRow odd_quantity_row \<noteq> None" by blast
  from 1 2 3 have "filter accepted [short_row, na_row, odd_quantity_row] = [odd_quantity_row]"
    by (simp flip: cleanRow_accepted)
  with acc have "map Some (cleanData [short_row, na_row, odd_quantity_row])
                   = [cleanRow odd_quantity_row]"
    by simp
  moreover have "cleanRow odd_quantity_row =
     Some \<lparr>Date = JStr ''2025-01-06'', Store = JStr ''Market'', Category = JStr ''Dairy'',
       Item = JStr ''Almond Milk'', Quantity = JStr ''two'', Unit = JNull,
       Price = JBool True, Total = 4\<rparr>"
    by (simp add: cleanRow_def odd_quantity_row_def)
  ultimately have "map Some (cleanData [short_row, na_row, odd_quantity_row]) =
     map Some [\<lparr>Date = JStr ''2025-01-06'', Store = JStr ''Market'', Category = JStr ''Dairy'',
       Item = JStr ''Almond Milk'', Quantity = JStr ''two'', Unit = JNull,
       Price = JBool True, Total = 4\<rparr>]"
    by simp
  then have "cleanData [short_row, na_row, odd_quantity_row] =
     [\<lparr>Date = JStr ''2025-01-06'', Store = JStr ''Market'', Category = JStr ''Dairy'',
       Item = JStr ''Almond Milk'', Quantity = JStr ''two'', Unit = JNull,
       Price = JBool True, Total = 4\<rparr>]"
    by (simp only: inj_map_eq_map [OF inj_Some])
  with 1 2 show ?thesis by simp
qed

text \<open>
  C10. A row of more than 8 values whose 8th value is a number is accepted, and the
  record made of it is the record made of its first 8 values: the values beyond the
  8th are dropped.
\<close>

theorem extra_columns_discarded:
  assumes "8 < length row" and "row ! 7 = JNum t"
  shows "\<exists>it. cleanRow row = Some it \<and> cleanRow (take 8 row) = Some it"
  using assms by (simp add: cleanRow_def)

theorem extra_columns_discarded_witness:
  "8 < length long_row \<and> long_row ! 7 = JNum (7 / 2)
   \<and> cleanRow long_row = Some whole_milk \<and> cleanRow (take 8 long_row) = Some whole_milk"
proof -
  have len: "8 < length long_row" by (simp add: long_row_def)
  have num: "long_row ! 7 = JNum (7 / 2)" by (simp add: long_row_def)
  have val: "cleanRow long_row = Some whole_milk"
    by (simp add: cleanRow_def long_row_def whole_milk_def)
  from extra_columns_discarded [OF len num] val
  have "cleanRow (take 8 long_row) = Some whole_milk" by auto
  with len num val show ?thesis by simp
qed

section \<open>Objects and sorting: properties\<close>

lemma map_of_obj_set: "map_of (obj_set k v obj) = (map_of obj)(k \<mapsto> v)"
  by (induction obj) (auto simp: fun_eq_iff)

lemma keys_obj_set:
  "map fst (obj_set k v obj) = (if k \<in> fst ` set obj then map fst obj else map fst obj @ [k])"
  by (induction obj) auto


lemma mset_own_entries: "mset (own_entries obj) = mset obj"
  by (simp add: own_entries_def)

lemma set_own_entries: "set (own_entries obj) = set obj"
  by (metis mset_own_entries set_mset_mset)

lemma length_own_entries: "length (own_entries obj) = length obj"
  by (metis mset_own_entries size_mset)

lemma mset_insert_by: "mset (insert_by cmp x xs) = add_mset x (mset xs)"
  by (induction xs) auto

lemma set_insert_by: "set (insert_by cmp x xs) = insert x (set xs)"
  by (induction xs) auto

lemma mset_js_sort: "mset (js_sort cmp xs) = mset xs"
  by (induction xs) (auto simp: mset_insert_by)

lemma set_js_sort: "set (js_sort cmp xs) = set xs"
  by (metis mset_js_sort set_mset_mset)

lemma length_js_sort: "length (js_sort cmp xs) = length xs"
  by (metis mset_js_sort size_mset)

lemma sorted_insert_by:
  assumes "total_preorder cmp" and "sorted_wrt (\<lambda>a b. cmp a b \<le> 0) xs"
  shows "sorted_wrt (\<lambda>a b. cmp a b \<le> 0) (insert_by cmp x xs)"
  using assms(2)
proof (induction xs)
  case Nil
  show ?case by simp
next
  case (Cons y ys)
  show ?case
  proof (cases "cmp x y \<le> 0")
    case True
    have "\<forall>z\<in>set ys. cmp x z \<le> 0"
    proof
      fix z assume "z \<in> set ys"
      with Cons.prems have "cmp y z \<le> 0" by simp
      with True assms(1) show "cmp x z \<le> 0" unfolding total_preorder_def by blast
    qed
    with True Cons.prems show ?thesis by simp
  next
    case False
    with assms(1) have yx: "cmp y x \<le> 0" unfolding total_preorder_def by blast
    from Cons have "sorted_wrt (\<lambda>a b. cmp a b \<le> 0) (insert_by cmp x ys)" by simp
    moreover have "\<forall>z\<in>set (insert_by cmp x ys). cmp y z \<le> 0"
      using yx Cons.prems by (simp add: set_insert_by)
    ultimately show ?thesis using False by simp
  qed
qed

lemma sorted_js_sort:
  "total_preorder cmp \<Longrightarrow> sorted_wrt (\<lambda>a b. cmp a b \<le> 0) (js_sort cmp xs)"
  by (induction xs) (auto simp: sorted_insert_by)

section \<open>Search view: properties\<close>

lemma trim_empty_iff: "(trim s = []) = (\<forall>c\<in>set s. is_white_space c)"
proof (cases "dropWhile is_white_space s = []")
  case True
  have "trim s = []" unfolding trim_def True by simp
  moreover from True have "\<forall>c\<in>set s. is_white_space c"
    by (simp add: dropWhile_eq_Nil_conv)
  ultimately show ?thesis by simp
next
  case False
  then have "\<not> is_white_space (hd (dropWhile is_white_space s))"
    by (rule hd_dropWhile)
  moreover have "hd (dropWhile is_white_space s) \<in> set (dropWhile is_white_space s)"
    using False by simp
  ultimately have "trim s \<noteq> []"
    by (auto simp: trim_def dropWhile_eq_Nil_conv)
  moreover have "\<not> (\<forall>c\<in>set s. is_white_space c)"
    using False by (simp add: dropWhile_eq_Nil_conv)
  ultimately show ?thesis by simp
qed

text \<open>
  C9. A search whose term is empty or made of white space only returns the state it
  was given: the result subset, the total spent, the purchase history and the price
  history are the ones of the search before.
\<close>

theorem blank_search_is_noop:
  assumes "\<forall>c\<in>set (searchTerm st). is_white_space c"
  shows "handleSearch env st = st"
  using assms by (simp add: handleSearch_def trim_empty_iff)

theorem blank_search_is_noop_witness:
  "handleSearch example_env searched_state = searched_state
   \<and> handleSearch example_env (searched_state\<lparr>searchTerm := []\<rparr>) = searched_state\<lparr>searchTerm := []\<rparr>
   \<and> searchResults searched_state = [whole_milk]"
proof -
  have "\<forall>c\<in>set (searchTerm searched_state). is_white_space c"
    by (simp add: searched_state_def is_white_space_def)
  then have 1: "handleSearch example_env searched_state = searched_state"
    by (rule blank_search_is_noop)
  have "\<forall>c\<in>set (searchTerm (searched_state\<lparr>searchTerm := []\<rparr>)). is_white_space c"
    by simp
  then have 2: "handleSearch example_env (searched_state\<lparr>searchTerm := []\<rparr>)
                  = searched_state\<lparr>searchTerm := []\<rparr>"
    by (rule blank_search_is_noop)
  from 1 2 show ?thesis by (simp add: searched_state_def)
qed

section \<open>Fixed-point formatting: properties\<close>




















section \<open>Arithmetic and accumulating objects: properties\<close>

lemma to_double_not_NaN: "to_double env x \<noteq> NaN"
  by (simp add: to_double_def split: rounding.splits)

lemma js_plus_not_NaN: "a \<noteq> NaN \<Longrightarrow> js_plus env a (Finite t) \<noteq> NaN"
  by (cases a) (simp_all add: to_double_not_NaN)

lemma sum_from_not_NaN: "n \<noteq> NaN \<Longrightarrow> sum_from env n ts \<noteq> NaN"
  unfolding sum_from_def by (induction ts arbitrary: n) (simp_all add: js_plus_not_NaN)

lemma js_sum_sum_from: "js_sum env ts = sum_from env (Finite 0) ts"
  by (simp add: js_sum_def sum_from_def)

lemma js_sum_not_NaN: "js_sum env ts \<noteq> NaN"
  by (simp add: js_sum_sum_from sum_from_not_NaN)

lemma sum_from_Cons: "sum_from env n (t # ts) = sum_from env (js_plus env n (Finite t)) ts"
  by (simp add: sum_from_def)

lemma sum_from_Nil: "sum_from env n [] = n"
  by (simp add: sum_from_def)

text \<open>
  The arithmetic of the example instance on numbers that are not doubles when written
  in decimal: 0.1 + 0.2 is one unit of the last place above the double 0.3; the average
  of 1 and 1.01 prints as \<^verbatim>\<open>1.00\<close>, and a fifth of 0.225 as \<^verbatim>\<open>0.04\<close>.
\<close>

lemma double_arithmetic_examples:
  "js_sum example_env [double_of (1 / 10), double_of (2 / 10)]
     = Finite (double_of (3 / 10) + 1 / 2 ^ 54)
   \<and> toFixed example_env 2
        (js_div example_env (js_sum example_env [1, double_of (101 / 100)]) (Finite 2)) = ''1.00''
   \<and> toFixed example_env 2
        (js_div example_env (Finite (double_of (225 / 1000))) (Finite 5)) = ''0.04''"
proof -
  have 1: "js_sum example_env [double_of (1 / 10), double_of (2 / 10)]
     = Finite (double_of (3 / 10) + 1 / 2 ^ 54)"
    by code_simp
  have 2: "toFixed example_env 2
        (js_div example_env (js_sum example_env [1, double_of (101 / 100)]) (Finite 2)) = ''1.00''"
    by code_simp
  have 3: "toFixed example_env 2
        (js_div example_env (Finite (double_of (225 / 1000))) (Finite 5)) = ''0.04''"
    by code_simp
  from 1 2 3 show ?thesis by (intro conjI)
qed

lemma sumTotal_js_sum: "sumTotal env cd = js_sum env (map Total cd)"
  by (simp add: sumTotal_def js_sum_def foldl_map)

lemma keys_add_to:
  "map fst (add_to env k t obj) =
     (if k \<in> fst ` set obj \<or> k = ''__proto__'' then map fst obj else map fst obj @ [k])"
proof (cases "map_of obj k")
  case None
  then have "k \<notin> fst ` set obj" by (simp add: map_of_eq_None_iff)
  with None show ?thesis
    by (simp add: add_to_def keys_obj_set)
next
  case (Some v)
  then have "k \<in> fst ` set obj" by (metis map_of_eq_None_iff option.distinct(1))
  with Some show ?thesis
    by (simp add: add_to_def keys_obj_set)
qed

lemma distinct_add_to: "distinct (map fst obj) \<Longrightarrow> distinct (map fst (add_to env k t obj))"
  by (simp add: keys_add_to)

lemma key_set_add_to:
  "fst ` set (add_to env k t obj) =
     (if k = ''__proto__'' then fst ` set obj else insert k (fst ` set obj))"
proof -
  have "fst ` set (add_to env k t obj) = set (map fst (add_to env k t obj))" by simp
  also have "\<dots> = (if k = ''__proto__'' then fst ` set obj else insert k (fst ` set obj))"
    unfolding keys_add_to by auto
  finally show ?thesis .
qed

lemma fold_add_distinct:
  "distinct (map fst obj) \<Longrightarrow>
   distinct (map fst (foldl (\<lambda>obj r. if p r then add_to env (key r) (Total r) obj else obj) obj rs))"
  by (induction rs arbitrary: obj) (auto simp: distinct_add_to)

lemma fold_add_keys:
  "fst ` set (foldl (\<lambda>obj r. if p r then add_to env (key r) (Total r) obj else obj) obj rs)
     = fst ` set obj \<union> {key r |r. r \<in> set rs \<and> p r \<and> key r \<noteq> ''__proto__''}"
proof (induction rs arbitrary: obj)
  case Nil
  show ?case by simp
next
  case (Cons r rs)
  show ?case
    unfolding foldl_Cons Cons.IH by (auto simp: key_set_add_to)
qed

lemma map_of_add_to_other: "k' \<noteq> k \<Longrightarrow> map_of (add_to env k t obj) k' = map_of obj k'"
  by (auto simp: add_to_def map_of_obj_set split: option.splits)

lemma map_of_add_to_new:
  assumes "\<not> inherited k" and "map_of obj k = None"
  shows "map_of (add_to env k t obj) k = Some (CNum (js_plus env (Finite 0) (Finite t)))"
  using assms by (simp add: add_to_def inherited_def map_of_obj_set)

lemma map_of_add_to_number:
  assumes "map_of obj k = Some (CNum n)" and "n \<noteq> NaN"
  shows "map_of (add_to env k t obj) k = Some (CNum (js_plus env n (Finite t)))"
proof (cases "truthy_computed (CNum n)")
  case True
  with assms show ?thesis by (simp add: add_to_def map_of_obj_set)
next
  case False
  with assms(2) have "n = Finite 0" by (cases n) auto
  with assms False show ?thesis by (simp add: add_to_def map_of_obj_set)
qed

lemma fold_add_value:
  assumes "\<not> inherited k"
  shows "map_of obj k = None \<or> (\<exists>n. map_of obj k = Some (CNum n) \<and> n \<noteq> NaN) \<Longrightarrow>
     map_of (foldl (\<lambda>obj r. if p r then add_to env (key r) (Total r) obj else obj) obj rs) k =
       (if map_of obj k = None \<and> \<not> (\<exists>r\<in>set rs. p r \<and> key r = k) then None
        else Some (CNum (sum_from env (num_at obj k)
                           (map Total (filter (\<lambda>r. p r \<and> key r = k) rs)))))"
proof (induction rs arbitrary: obj)
  case Nil
  then show ?case by (auto simp: num_at_def sum_from_Nil)
next
  case (Cons r rs)
  show ?case
  proof (cases "p r \<and> key r = k")
    case False
    then have same: "map_of (if p r then add_to env (key r) (Total r) obj else obj) k = map_of obj k"
      by (auto simp: map_of_add_to_other)
    then have n: "num_at (if p r then add_to env (key r) (Total r) obj else obj) k = num_at obj k"
      by (simp add: num_at_def)
    from Cons.prems same
    have pre: "map_of (if p r then add_to env (key r) (Total r) obj else obj) k = None \<or>
          (\<exists>n. map_of (if p r then add_to env (key r) (Total r) obj else obj) k = Some (CNum n) \<and> n \<noteq> NaN)"
      by simp
    show ?thesis
      unfolding foldl_Cons Cons.IH [OF pre] same n using False by auto
  next
    case True
    define n' where "n' = js_plus env (num_at obj k) (Finite (Total r))"
    have upd: "map_of (add_to env k (Total r) obj) k = Some (CNum n')"
    proof (cases "map_of obj k")
      case None
      then show ?thesis
        using map_of_add_to_new [OF assms None] by (simp add: n'_def num_at_def)
    next
      case (Some v)
      with Cons.prems obtain n where v: "map_of obj k = Some (CNum n)" and nn: "n \<noteq> NaN"
        by auto
      then show ?thesis
        using map_of_add_to_number [OF v nn] by (simp add: n'_def num_at_def)
    qed
    have nn': "n' \<noteq> NaN"
    proof -
      have "num_at obj k \<noteq> NaN"
        using Cons.prems by (auto simp: num_at_def)
      then show ?thesis unfolding n'_def by (rule js_plus_not_NaN)
    qed
    have step: "(if p r then add_to env (key r) (Total r) obj else obj) = add_to env k (Total r) obj"
      using True by simp
    have pre: "map_of (add_to env k (Total r) obj) k = None \<or>
          (\<exists>n. map_of (add_to env k (Total r) obj) k = Some (CNum n) \<and> n \<noteq> NaN)"
      using upd nn' by simp
    have n: "num_at (add_to env k (Total r) obj) k = n'"
      using upd by (simp add: num_at_def)
    show ?thesis
      unfolding foldl_Cons step Cons.IH [OF pre] upd n
      using True by (simp add: sum_from_Cons n'_def)
  qed
qed

section \<open>Category and store summaries: properties\<close>

lemma summaryArray_entry:
  assumes "e \<in> set (summaryArray env cd obj)"
  shows "(entry_name e, entry_value e) \<in> set obj \<and>
         percentage e = toFixed env 1
           (js_div env (js_times env (to_number env (entry_value e)) (Finite 100))
                       (sumTotal env cd))"
  using assms by (auto simp: summaryArray_def set_js_sort set_own_entries)

lemma mset_summaryArray_names:
  "mset (map entry_name (summaryArray env cd obj)) = mset (map fst obj)"
proof -
  define f where "f = (\<lambda>(name, spent).
               \<lparr>entry_name = name, entry_value = spent,
                percentage = toFixed env 1
                  (js_div env (js_times env (to_number env spent) (Finite 100))
                              (sumTotal env cd))\<rparr>)"
  have comp: "entry_name \<circ> f = fst"
    by (auto simp: fun_eq_iff f_def)
  have "mset (map entry_name (summaryArray env cd obj))
          = image_mset entry_name (mset (map f (own_entries obj)))"
    unfolding summaryArray_def f_def by (simp add: mset_js_sort)
  also have "\<dots> = image_mset (entry_name \<circ> f) (mset (own_entries obj))"
    by (simp add: multiset.map_comp)
  also have "\<dots> = image_mset fst (mset obj)"
    unfolding comp mset_own_entries ..
  finally show ?thesis by simp
qed

lemma summaryArray_names: "entry_name ` set (summaryArray env cd obj) = fst ` set obj"
proof -
  have "entry_name ` set (summaryArray env cd obj)
          = set_mset (mset (map entry_name (summaryArray env cd obj)))"
    by simp
  also have "\<dots> = fst ` set obj"
    unfolding mset_summaryArray_names by simp
  finally show ?thesis .
qed

lemma summaryArray_distinct:
  "distinct (map fst obj) \<Longrightarrow> distinct (map entry_name (summaryArray env cd obj))"
  using mset_eq_imp_distinct_iff [OF mset_summaryArray_names [of env cd obj]] by simp

lemma categories_distinct: "distinct (map fst (categories env cd))"
  unfolding categories_def by (rule fold_add_distinct) simp

lemma categories_keys:
  "fst ` set (categories env cd) =
     {toString env (Category r) |r. r \<in> set cd \<and> Category r \<noteq> JStr ''CRV''
                                    \<and> toString env (Category r) \<noteq> ''__proto__''}"
  unfolding categories_def fold_add_keys by simp

lemma categories_value:
  assumes "\<not> inherited k" and "(k, v) \<in> set (categories env cd)"
  shows "v = CNum (js_sum env (category_totals env cd k))"
proof -
  from assms(2) have "map_of (categories env cd) k = Some v"
    using categories_distinct by simp
  moreover have "map_of (categories env cd) k =
       (if map_of [] k = None \<and> \<not> (\<exists>r\<in>set cd. Category r \<noteq> JStr ''CRV'' \<and> toString env (Category r) = k)
        then None
        else Some (CNum (sum_from env (num_at [] k)
               (map Total (filter (\<lambda>r. Category r \<noteq> JStr ''CRV'' \<and> toString env (Category r) = k) cd)))))"
    unfolding categories_def
    using fold_add_value [OF assms(1), of "[]" "\<lambda>r. Category r \<noteq> JStr ''CRV''" env
                            "\<lambda>r. toString env (Category r)" cd]
    by simp
  ultimately show ?thesis
    by (simp add: num_at_def js_sum_sum_from category_totals_def split: if_splits)
qed

lemma stores_distinct: "distinct (map fst (stores env cd))"
  unfolding stores_def
  using fold_add_distinct [of "[]" "\<lambda>r. True" env "\<lambda>r. toString env (Store r)" cd] by simp

lemma stores_keys:
  "fst ` set (stores env cd) =
     {toString env (Store r) |r. r \<in> set cd \<and> toString env (Store r) \<noteq> ''__proto__''}"
  unfolding stores_def
  using fold_add_keys [of "\<lambda>r. True" env "\<lambda>r. toString env (Store r)" "[]" cd] by simp

lemma stores_value:
  assumes "\<not> inherited k" and "(k, v) \<in> set (stores env cd)"
  shows "v = CNum (js_sum env (store_totals env cd k))"
proof -
  from assms(2) have "map_of (stores env cd) k = Some v"
    using stores_distinct by simp
  moreover have "map_of (stores env cd) k =
       (if map_of [] k = None \<and> \<not> (\<exists>r\<in>set cd. True \<and> toString env (Store r) = k)
        then None
        else Some (CNum (sum_from env (num_at [] k)
               (map Total (filter (\<lambda>r. True \<and> toString env (Store r) = k) cd)))))"
    unfolding stores_def
    using fold_add_value [OF assms(1), of "[]" "\<lambda>r. True" env "\<lambda>r. toString env (Store r)" cd]
    by simp
  ultimately show ?thesis
    by (simp add: num_at_def js_sum_sum_from store_totals_def split: if_splits)
qed

text \<open>Grouping a list by a key, over a list of distinct keys, counts each element once.\<close>

lemma mset_filter_key:
  assumes "k \<notin> set ks"
  shows "mset (filter (\<lambda>r. q r \<and> key r = k) xs) + mset (filter (\<lambda>r. q r \<and> key r \<in> set ks) xs)
           = mset (filter (\<lambda>r. q r \<and> key r \<in> set (k # ks)) xs)"
  using assms by (induction xs) auto

lemma mset_grouped:
  assumes "distinct ks"
  shows "mset (concat (map (\<lambda>k. map f (filter (\<lambda>r. q r \<and> key r = k) xs)) ks))
           = mset (map f (filter (\<lambda>r. q r \<and> key r \<in> set ks) xs))"
  using assms
proof (induction ks)
  case Nil
  show ?case by simp
next
  case (Cons k ks)
  then have k: "k \<notin> set ks" and d: "distinct ks" by simp_all
  have "mset (concat (map (\<lambda>k. map f (filter (\<lambda>r. q r \<and> key r = k) xs)) (k # ks)))
          = image_mset f (mset (filter (\<lambda>r. q r \<and> key r = k) xs))
            + mset (map f (filter (\<lambda>r. q r \<and> key r \<in> set ks) xs))"
    using Cons.IH [OF d] by simp
  also have "\<dots> = image_mset f (mset (filter (\<lambda>r. q r \<and> key r = k) xs)
                                  + mset (filter (\<lambda>r. q r \<and> key r \<in> set ks) xs))"
    by simp
  also have "\<dots> = image_mset f (mset (filter (\<lambda>r. q r \<and> key r \<in> set (k # ks)) xs))"
    unfolding mset_filter_key [OF k] ..
  finally show ?case by simp
qed

lemma category_totals_grouped:
  "mset (concat (map (\<lambda>e. category_totals env cd (entry_name e)) (categoryArray env cd)))
     = mset (map Total (filter (\<lambda>r. Category r \<noteq> JStr ''CRV''
                                       \<and> toString env (Category r) \<noteq> ''__proto__'') cd))"
proof -
  define ks where "ks = map entry_name (categoryArray env cd)"
  have d: "distinct ks"
    unfolding ks_def categoryArray_def by (rule summaryArray_distinct) (rule categories_distinct)
  have s: "set ks = {toString env (Category r) |r. r \<in> set cd \<and> Category r \<noteq> JStr ''CRV''
                                    \<and> toString env (Category r) \<noteq> ''__proto__''}"
    unfolding ks_def categoryArray_def set_map summaryArray_names categories_keys ..
  have "concat (map (\<lambda>e. category_totals env cd (entry_name e)) (categoryArray env cd))
          = concat (map (\<lambda>k. map Total (filter (\<lambda>r. Category r \<noteq> JStr ''CRV''
                                  \<and> toString env (Category r) = k) cd)) ks)"
    by (simp add: ks_def category_totals_def comp_def)
  then have "mset (concat (map (\<lambda>e. category_totals env cd (entry_name e)) (categoryArray env cd)))
          = mset (map Total (filter (\<lambda>r. Category r \<noteq> JStr ''CRV''
                                  \<and> toString env (Category r) \<in> set ks) cd))"
    using mset_grouped [OF d, of Total "\<lambda>r. Category r \<noteq> JStr ''CRV''"
                          "\<lambda>r. toString env (Category r)" cd]
    by simp
  moreover have "filter (\<lambda>r. Category r \<noteq> JStr ''CRV'' \<and> toString env (Category r) \<in> set ks) cd
          = filter (\<lambda>r. Category r \<noteq> JStr ''CRV'' \<and> toString env (Category r) \<noteq> ''__proto__'') cd"
    unfolding s by (rule filter_cong) auto
  ultimately show ?thesis by simp
qed

text \<open>
  The values of a summary are sums taken category by category, and doubles do not keep
  a sum under regrouping: for purchases of 0.1 and 2.2 in one category and 0.2 in
  another, without any \<^verbatim>\<open>CRV\<close> row, the values add up to one unit of the last place
  more than the Totals do.
\<close>

lemma regrouped_sums_differ:
  "sum_values example_env
     (categoryArray example_env
        [purchase ''A'' (double_of (1 / 10)), purchase ''B'' (double_of (2 / 10)),
         purchase ''A'' (double_of (22 / 10))]) = Finite (5 / 2 + 1 / 2 ^ 51)
   \<and> js_sum example_env
        (map Total [purchase ''A'' (double_of (1 / 10)), purchase ''B'' (double_of (2 / 10)),
                    purchase ''A'' (double_of (22 / 10))]) = Finite (5 / 2)"
proof -
  have 1: "sum_values example_env
     (categoryArray example_env
        [purchase ''A'' (double_of (1 / 10)), purchase ''B'' (double_of (2 / 10)),
         purchase ''A'' (double_of (22 / 10))]) = Finite (5 / 2 + 1 / 2 ^ 51)"
    by code_simp
  have 2: "js_sum example_env
        (map Total [purchase ''A'' (double_of (1 / 10)), purchase ''B'' (double_of (2 / 10)),
                    purchase ''A'' (double_of (22 / 10))]) = Finite (5 / 2)"
    by code_simp
  from 1 2 show ?thesis ..
qed

text \<open>
  C1, as amended. The Category Summary has one entry for each category of a record
  whose Category is not \<^verbatim>\<open>CRV\<close> (a category named \<^verbatim>\<open>__proto__\<close> gets none), no
  name occurs twice, and the value of an entry whose name is not a member of
  \<^verbatim>\<open>Object.prototype\<close> is the sum of the Totals of the records of that category
  outside \<^verbatim>\<open>CRV\<close>, added from \<^verbatim>\<open>0\<close> in the order of the records. Each Total of a
  record outside \<^verbatim>\<open>CRV\<close> is counted in exactly one entry, and the Totals of the
  \<^verbatim>\<open>CRV\<close> records are counted in none.
\<close>

theorem category_values:
  "distinct (map entry_name (categoryArray env cd))
   \<and> entry_name ` set (categoryArray env cd)
       = {toString env (Category r) |r. r \<in> set cd \<and> Category r \<noteq> JStr ''CRV''
                                      \<and> toString env (Category r) \<noteq> ''__proto__''}
   \<and> (\<forall>e\<in>set (categoryArray env cd). \<not> inherited (entry_name e) \<longrightarrow>
         entry_value e = CNum (js_sum env (category_totals env cd (entry_name e))))
   \<and> mset (concat (map (\<lambda>e. category_totals env cd (entry_name e)) (categoryArray env cd)))
       = mset (map Total (filter (\<lambda>r. Category r \<noteq> JStr ''CRV''
                                         \<and> toString env (Category r) \<noteq> ''__proto__'') cd))"
proof (intro conjI ballI impI)
  show "distinct (map entry_name (categoryArray env cd))"
    unfolding categoryArray_def by (rule summaryArray_distinct) (rule categories_distinct)
  show "entry_name ` set (categoryArray env cd)
       = {toString env (Category r) |r. r \<in> set cd \<and> Category r \<noteq> JStr ''CRV''
                                      \<and> toString env (Category r) \<noteq> ''__proto__''}"
    unfolding categoryArray_def summaryArray_names categories_keys ..
  show "mset (concat (map (\<lambda>e. category_totals env cd (entry_name e)) (categoryArray env cd)))
       = mset (map Total (filter (\<lambda>r. Category r \<noteq> JStr ''CRV''
                                         \<and> toString env (Category r) \<noteq> ''__proto__'') cd))"
    by (rule category_totals_grouped)
next
  fix e
  assume e: "e \<in> set (categoryArray env cd)" and n: "\<not> inherited (entry_name e)"
  from e have "(entry_name e, entry_value e) \<in> set (categories env cd)"
    using summaryArray_entry [of e env cd "categories env cd"] by (simp add: categoryArray_def)
  with n show "entry_value e = CNum (js_sum env (category_totals env cd (entry_name e)))"
    by (rule categories_value)
qed

lemma example_milk_categories:
  "categoryArray example_env [whole_milk, crv_deposit, almond_milk] = [milk_entry]"
  by code_simp

lemma dairy_not_inherited: "\<not> inherited ''Dairy''"
  by (simp add: inherited_def inherited_method_def)

theorem category_values_witness:
  "categoryArray example_env [whole_milk, crv_deposit, almond_milk] = [milk_entry]
   \<and> \<not> inherited (entry_name milk_entry)
   \<and> category_totals example_env [whole_milk, crv_deposit, almond_milk] ''Dairy'' = [7 / 2, 4]
   \<and> entry_value milk_entry
       = CNum (js_sum example_env
                 (category_totals example_env [whole_milk, crv_deposit, almond_milk]
                    (entry_name milk_entry)))
   \<and> entry_value milk_entry = CNum (Finite (15 / 2))"
proof -
  note w = category_values [of example_env "[whole_milk, crv_deposit, almond_milk]"]
  have m: "milk_entry \<in> set (categoryArray example_env [whole_milk, crv_deposit, almond_milk])"
    by (simp add: example_milk_categories)
  have n: "\<not> inherited (entry_name milk_entry)"
    by (simp add: milk_entry_def dairy_not_inherited)
  from w m n have 1: "entry_value milk_entry
       = CNum (js_sum example_env
                 (category_totals example_env [whole_milk, crv_deposit, almond_milk]
                    (entry_name milk_entry)))"
    by blast
  have 2: "category_totals example_env [whole_milk, crv_deposit, almond_milk] ''Dairy'' = [7 / 2, 4]"
    by code_simp
  have 3: "entry_value milk_entry = CNum (Finite (15 / 2))"
    by (simp add: milk_entry_def)
  from example_milk_categories n 1 2 3 show ?thesis by blast
qed

text \<open>
  C1 as stated fails once a \<^verbatim>\<open>CRV\<close> row has a non-zero Total: for a gallon of milk
  at 3.50 and a deposit of 0.50 the one value of the Category Summary is 3.50, and the
  Totals of the two records add up to 4.
\<close>

theorem category_sum_counterexample:
  "categoryArray example_env [whole_milk, crv_deposit] = [dairy_entry]
   \<and> sum_values example_env (categoryArray example_env [whole_milk, crv_deposit]) = Finite (7 / 2)
   \<and> js_sum example_env (map Total [whole_milk, crv_deposit]) = Finite 4
   \<and> sum_values example_env (categoryArray example_env [whole_milk, crv_deposit])
       \<noteq> js_sum example_env (map Total [whole_milk, crv_deposit])"
proof -
  have 1: "categoryArray example_env [whole_milk, crv_deposit] = [dairy_entry]" by code_simp
  have 2: "sum_values example_env [dairy_entry] = Finite (7 / 2)" by code_simp
  have 3: "js_sum example_env (map Total [whole_milk, crv_deposit]) = Finite 4" by code_simp
  show ?thesis unfolding 1 2 3 by simp
qed

text \<open>
  The percentage of an entry, in both summaries and for every record set: the value of
  the entry times 100, divided by the sum of the Totals of all records, those of
  \<^verbatim>\<open>CRV\<close> included, and printed with one decimal. Under a name that is not a member
  of \<^verbatim>\<open>Object.prototype\<close> the value is the sum of the Totals of the category, or of
  the store.
\<close>

lemma percentage_of_all_records:
  "(\<forall>e\<in>set (categoryArray env cd).
      percentage e = toFixed env 1
        (js_div env (js_times env (to_number env (entry_value e)) (Finite 100))
                    (js_sum env (map Total cd)))
      \<and> (\<not> inherited (entry_name e) \<longrightarrow>
           entry_value e = CNum (js_sum env (category_totals env cd (entry_name e)))))
   \<and> (\<forall>e\<in>set (storeArray env cd).
      percentage e = toFixed env 1
        (js_div env (js_times env (to_number env (entry_value e)) (Finite 100))
                    (js_sum env (map Total cd)))
      \<and> (\<not> inherited (entry_name e) \<longrightarrow>
           entry_value e = CNum (js_sum env (store_totals env cd (entry_name e)))))"
proof (intro conjI ballI impI)
  fix e assume e: "e \<in> set (categoryArray env cd)"
  then have s: "(entry_name e, entry_value e) \<in> set (categories env cd) \<and>
         percentage e = toFixed env 1
           (js_div env (js_times env (to_number env (entry_value e)) (Finite 100))
                       (sumTotal env cd))"
    unfolding categoryArray_def by (rule summaryArray_entry)
  then show "percentage e = toFixed env 1
        (js_div env (js_times env (to_number env (entry_value e)) (Finite 100))
                    (js_sum env (map Total cd)))"
    by (simp add: sumTotal_js_sum)
  assume "\<not> inherited (entry_name e)"
  with s show "entry_value e = CNum (js_sum env (category_totals env cd (entry_name e)))"
    using categories_value by blast
next
  fix e assume e: "e \<in> set (storeArray env cd)"
  then have s: "(entry_name e, entry_value e) \<in> set (stores env cd) \<and>
         percentage e = toFixed env 1
           (js_div env (js_times env (to_number env (entry_value e)) (Finite 100))
                       (sumTotal env cd))"
    unfolding storeArray_def by (rule summaryArray_entry)
  then show "percentage e = toFixed env 1
        (js_div env (js_times env (to_number env (entry_value e)) (Finite 100))
                    (js_sum env (map Total cd)))"
    by (simp add: sumTotal_js_sum)
  assume "\<not> inherited (entry_name e)"
  with s show "entry_value e = CNum (js_sum env (store_totals env cd (entry_name e)))"
    using stores_value by blast
qed

lemma example_percentages:
  "categoryArray example_env [whole_milk, crv_deposit] = [dairy_entry]
   \<and> storeArray example_env [whole_milk, crv_deposit] = [market_entry]
   \<and> js_sum example_env (map Total [whole_milk, crv_deposit]) = Finite 4
   \<and> percentage dairy_entry = ''87.5''"
proof -
  have 1: "categoryArray example_env [whole_milk, crv_deposit] = [dairy_entry]" by code_simp
  have 2: "storeArray example_env [whole_milk, crv_deposit] = [market_entry]" by code_simp
  have 3: "js_sum example_env (map Total [whole_milk, crv_deposit]) = Finite 4" by code_simp
  from 1 2 3 show ?thesis by (simp add: dairy_entry_def)
qed

text \<open>
  C3 fails on a category that has the name of a method of \<^verbatim>\<open>Object.prototype\<close>.
  For one record of 3.50 in the category \<^verbatim>\<open>constructor\<close> the test
  \<^verbatim>\<open>!categories[item.Category]\<close> finds the inherited function, \<^verbatim>\<open>+=\<close> stores the text
  of the function followed by \<^verbatim>\<open>3.5\<close>, and the percentage of the entry is \<^verbatim>\<open>NaN\<close>. The
  summed Total of the category is 3.50 and the sum over all records is 3.50, which
  make a percentage of \<^verbatim>\<open>100.0\<close>.
\<close>

theorem percentage_inherited_category:
  "categoryArray example_env [constructor_category] =
     [\<lparr>entry_name = ''constructor'',
       entry_value = CStr ''function Object() { [native code] }3.5'',
       percentage = ''NaN''\<rparr>]
   \<and> js_sum example_env (category_totals example_env [constructor_category] ''constructor'')
       = Finite (7 / 2)
   \<and> js_sum example_env (map Total [constructor_category]) = Finite (7 / 2)
   \<and> toFixed example_env 1
        (js_div example_env (js_times example_env (Finite (7 / 2)) (Finite 100)) (Finite (7 / 2)))
       = ''100.0''"
proof -
  have 1: "categoryArray example_env [constructor_category] =
     [\<lparr>entry_name = ''constructor'',
       entry_value = CStr ''function Object() { [native code] }3.5'',
       percentage = ''NaN''\<rparr>]"
    by code_simp
  have 2: "js_sum example_env (category_totals example_env [constructor_category] ''constructor'')
       = Finite (7 / 2)"
    by code_simp
  have 3: "js_sum example_env (map Total [constructor_category]) = Finite (7 / 2)"
    by code_simp
  have 4: "toFixed example_env 1
        (js_div example_env (js_times example_env (Finite (7 / 2)) (Finite 100)) (Finite (7 / 2)))
       = ''100.0''"
    by code_simp
  from 1 2 3 4 show ?thesis by (intro conjI)
qed

section \<open>Top items: properties\<close>
















section \<open>Monthly summary: properties\<close>

lemma code_unit_compare_total:
  "code_unit_compare a b \<le> 0 \<or> code_unit_compare b a \<le> 0"
  by (induction a b rule: code_unit_compare.induct) auto

lemma code_unit_compare_trans:
  "code_unit_compare a b \<le> 0 \<Longrightarrow> code_unit_compare b c \<le> 0 \<Longrightarrow> code_unit_compare a c \<le> 0"
proof (induction a arbitrary: b c)
  case Nil
  then show ?case by (cases c) auto
next
  case (Cons x xs)
  then obtain y ys where b: "b = y # ys" by (cases b) auto
  with Cons.prems obtain z zs where c: "c = z # zs" by (cases c) auto
  show ?case
  proof (cases "(of_char x :: nat) < of_char z")
    case True
    then show ?thesis by (simp add: c)
  next
    case False
    from Cons.prems(1) have xy: "(of_char x :: nat) \<le> of_char y"
      unfolding b by (auto split: if_splits)
    from Cons.prems(2) have yz: "(of_char y :: nat) \<le> of_char z"
      unfolding b c by (auto split: if_splits)
    from False xy yz have e1: "(of_char x :: nat) = of_char y"
      by linarith
    from False xy yz have e2: "(of_char y :: nat) = of_char z"
      by linarith
    from Cons.prems(1) e1 have 1: "code_unit_compare xs ys \<le> 0" unfolding b by simp
    from Cons.prems(2) e2 have 2: "code_unit_compare ys zs \<le> 0" unfolding b c by simp
    from Cons.IH [OF 1 2] e1 e2 show ?thesis by (simp add: c)
  qed
qed

lemma example_env_order: "total_preorder (localeCompare example_env)"
  unfolding total_preorder_def example_env_def
  using code_unit_compare_total code_unit_compare_trans by (simp, blast)

lemma str_includes_single: "str_includes s [c] = (c \<in> set s)"
  by (induction s) auto

lemma months_fold:
  "months env cd = foldl (\<lambda>ms it. if has_month it then add_to env (month_key it) (Total it) ms else ms) [] cd"
proof -
  have "(\<lambda>ms it. case Date it of
                JStr d \<Rightarrow> if str_includes d ''-'' then add_to env (substring_0_7 d) (Total it) ms else ms
              | _ \<Rightarrow> ms)
        = (\<lambda>ms it. if has_month it then add_to env (month_key it) (Total it) ms else ms)"
    by (auto simp: fun_eq_iff has_month_def month_key_def split: jsval.splits)
  then show ?thesis by (simp add: months_def)
qed

lemma months_distinct: "distinct (map fst (months env cd))"
  unfolding months_fold by (rule fold_add_distinct) simp

lemma month_key_not_proto: "has_month r \<Longrightarrow> month_key r \<noteq> ''__proto__''"
proof
  assume h: "has_month r" and eq: "month_key r = ''__proto__''"
  from h obtain d where d: "Date r = JStr d" by (cases "Date r") (auto simp: has_month_def)
  have "length (month_key r) \<le> 7" by (simp add: d month_key_def substring_0_7_def)
  with eq show False by simp
qed

lemma months_keys:
  "fst ` set (months env cd) = {take 7 d |d. \<exists>r\<in>set cd. Date r = JStr d \<and> CHR ''-'' \<in> set d}"
proof (rule set_eqI)
  fix k
  have "k \<in> fst ` set (months env cd)
          \<longleftrightarrow> (\<exists>r\<in>set cd. has_month r \<and> month_key r = k \<and> month_key r \<noteq> ''__proto__'')"
    unfolding months_fold fold_add_keys by auto
  also have "\<dots> \<longleftrightarrow> (\<exists>r\<in>set cd. has_month r \<and> month_key r = k)"
    using month_key_not_proto by blast
  also have "\<dots> \<longleftrightarrow> (\<exists>r\<in>set cd. \<exists>d. Date r = JStr d \<and> CHR ''-'' \<in> set d \<and> k = take 7 d)"
  proof -
    have "(has_month r \<and> month_key r = k)
            \<longleftrightarrow> (\<exists>d. Date r = JStr d \<and> CHR ''-'' \<in> set d \<and> k = take 7 d)" for r
      by (cases "Date r")
         (auto simp: has_month_def month_key_def str_includes_single substring_0_7_def)
    then show ?thesis by simp
  qed
  also have "\<dots> \<longleftrightarrow> k \<in> {take 7 d |d. \<exists>r\<in>set cd. Date r = JStr d \<and> CHR ''-'' \<in> set d}"
    by blast
  finally show "k \<in> fst ` set (months env cd)
      \<longleftrightarrow> k \<in> {take 7 d |d. \<exists>r\<in>set cd. Date r = JStr d \<and> CHR ''-'' \<in> set d}" .
qed

lemma mset_monthArray_keys: "mset (map month (monthArray env cd)) = mset (map fst (months env cd))"
proof -
  have comp: "month \<circ> (\<lambda>(m, s). \<lparr>month = m, spent = s\<rparr>) = fst"
    by (auto simp: fun_eq_iff)
  have "mset (map month (monthArray env cd))
          = image_mset month (mset (map (\<lambda>(m, s). \<lparr>month = m, spent = s\<rparr>) (own_entries (months env cd))))"
    unfolding monthArray_def by (simp add: mset_js_sort)
  also have "\<dots> = image_mset (month \<circ> (\<lambda>(m, s). \<lparr>month = m, spent = s\<rparr>)) (mset (own_entries (months env cd)))"
    by (simp add: multiset.map_comp)
  also have "\<dots> = image_mset fst (mset (months env cd))"
    unfolding comp mset_own_entries ..
  finally show ?thesis by simp
qed

text \<open>
  C5, as amended. The keys of the Monthly Summary are exactly the 7-character prefixes
  of the Date fields that are strings and contain a \<^verbatim>\<open>-\<close>; no key occurs twice; and
  the entries are in ascending order of their keys under \<^verbatim>\<open>localeCompare\<close>, for every
  environment whose \<^verbatim>\<open>localeCompare\<close> is a total preorder (the lexical order is one).
\<close>

theorem monthly_keys:
  "month ` set (monthArray env cd)
     = {take 7 d |d. \<exists>r\<in>set cd. Date r = JStr d \<and> CHR ''-'' \<in> set d}
   \<and> distinct (map month (monthArray env cd))
   \<and> (total_preorder (localeCompare env)
        \<longrightarrow> sorted_wrt (\<lambda>a b. localeCompare env (month a) (month b) \<le> 0) (monthArray env cd))"
proof (intro conjI impI)
  have "month ` set (monthArray env cd) = set_mset (mset (map month (monthArray env cd)))"
    by simp
  also have "\<dots> = fst ` set (months env cd)"
    unfolding mset_monthArray_keys by simp
  finally show "month ` set (monthArray env cd)
     = {take 7 d |d. \<exists>r\<in>set cd. Date r = JStr d \<and> CHR ''-'' \<in> set d}"
    by (simp only: months_keys)
  show "distinct (map month (monthArray env cd))"
    using months_distinct [of env cd] mset_eq_imp_distinct_iff [OF mset_monthArray_keys [of env cd]]
    by simp
next
  assume "total_preorder (localeCompare env)"
  then have "total_preorder (\<lambda>a b. localeCompare env (month a) (month b))"
    unfolding total_preorder_def by blast
  then show "sorted_wrt (\<lambda>a b. localeCompare env (month a) (month b) \<le> 0) (monthArray env cd)"
    unfolding monthArray_def by (rule sorted_js_sort)
qed

lemma example_monthArray:
  "monthArray example_env [february_milk, undated_item, whole_milk, almond_milk]
     = [\<lparr>month = ''2025-01'', spent = CNum (Finite (15 / 2))\<rparr>, \<lparr>month = ''2025-02'', spent = CNum (Finite 6)\<rparr>]"
  by code_simp

theorem monthly_keys_witness:
  "monthArray example_env [february_milk, undated_item, whole_milk, almond_milk]
     = [\<lparr>month = ''2025-01'', spent = CNum (Finite (15 / 2))\<rparr>, \<lparr>month = ''2025-02'', spent = CNum (Finite 6)\<rparr>]
   \<and> total_preorder (localeCompare example_env)
   \<and> sorted_wrt (\<lambda>a b. localeCompare example_env (month a) (month b) \<le> 0)
        (monthArray example_env [february_milk, undated_item, whole_milk, almond_milk])
   \<and> month ` set (monthArray example_env [february_milk, undated_item, whole_milk, almond_milk])
       = {take 7 d |d. \<exists>r\<in>set [february_milk, undated_item, whole_milk, almond_milk].
                         Date r = JStr d \<and> CHR ''-'' \<in> set d}"
proof -
  note w = monthly_keys [of example_env "[february_milk, undated_item, whole_milk, almond_milk]"]
  from w example_env_order
  have 1: "sorted_wrt (\<lambda>a b. localeCompare example_env (month a) (month b) \<le> 0)
        (monthArray example_env [february_milk, undated_item, whole_milk, almond_milk])"
    by (elim conjE impE)
  from w
  have 2: "month ` set (monthArray example_env [february_milk, undated_item, whole_milk, almond_milk])
       = {take 7 d |d. \<exists>r\<in>set [february_milk, undated_item, whole_milk, almond_milk].
                         Date r = JStr d \<and> CHR ''-'' \<in> set d}"
    by (rule conjunct1)
  from example_monthArray example_env_order 1 2 show ?thesis
    by (intro conjI)
qed

text \<open>
  C5 as stated fails on a date without a \<^verbatim>\<open>-\<close>: the record dated \<^verbatim>\<open>Jan 5 2025\<close> has
  the 7-character prefix \<^verbatim>\<open>Jan 5 2\<close>, and the Monthly Summary of that record alone is
  empty.
\<close>

theorem monthly_keys_counterexample:
  "monthArray example_env [undated_item] = []
   \<and> Date undated_item = JStr ''Jan 5 2025''
   \<and> take 7 ''Jan 5 2025'' = ''Jan 5 2''
   \<and> month ` set (monthArray example_env [undated_item]) \<noteq> {take 7 ''Jan 5 2025''}"
proof -
  have "monthArray example_env [undated_item] = []" by code_simp
  then show ?thesis by (simp add: undated_item_def)
qed

section \<open>Overall statistics: properties\<close>

lemma keys_add_trip:
  "map fst (add_trip env obj r) =
     (if toString env (Date r) \<in> fst ` set obj \<or> inherited (toString env (Date r))
      then map fst obj
      else map fst obj @ [toString env (Date r)])"
proof (cases "map_of obj (toString env (Date r))")
  case None
  then have "toString env (Date r) \<notin> fst ` set obj" by (simp add: map_of_eq_None_iff)
  with None show ?thesis
    by (simp add: add_trip_def Let_def keys_obj_set)
next
  case (Some t)
  then have "toString env (Date r) \<in> fst ` set obj"
    by (metis map_of_eq_None_iff option.distinct(1))
  with Some show ?thesis
    by (simp add: add_trip_def Let_def keys_obj_set)
qed

lemma trips_fold_keys:
  "distinct (map fst obj) \<Longrightarrow>
   distinct (map fst (foldl (add_trip env) obj rs))
   \<and> set (map fst (foldl (add_trip env) obj rs))
       = set (map fst obj)
         \<union> {toString env (Date r) |r. r \<in> set rs \<and> \<not> inherited (toString env (Date r))}"
proof (induction rs arbitrary: obj)
  case Nil
  then show ?case by simp
next
  case (Cons r rs)
  have d: "distinct (map fst (add_trip env obj r))"
    using Cons.prems by (simp add: keys_add_trip)
  have s: "set (map fst (add_trip env obj r)) =
             (if inherited (toString env (Date r)) then set (map fst obj)
              else insert (toString env (Date r)) (set (map fst obj)))"
    by (auto simp: keys_add_trip)
  from Cons.IH [OF d] show ?case unfolding foldl_Cons s by auto
qed

lemma trips_count:
  "length (own_entries (trips env cd))
     = card {toString env (Date r) |r. r \<in> set cd \<and> \<not> inherited (toString env (Date r))}"
proof -
  have k: "distinct (map fst (trips env cd))"
    and s: "set (map fst (trips env cd))
              = {toString env (Date r) |r. r \<in> set cd \<and> \<not> inherited (toString env (Date r))}"
    using trips_fold_keys [of "[]" env cd] by (simp_all add: trips_def)
  have "length (own_entries (trips env cd)) = length (map fst (trips env cd))"
    by (simp add: length_own_entries)
  also have "\<dots> = card (set (map fst (trips env cd)))"
    using k by (rule distinct_card [symmetric])
  finally show ?thesis unfolding s .
qed

lemma distinct_dates_card:
  "distinct_dates env cd = card ((\<lambda>r. toString env (Date r)) ` set cd)"
  by (simp add: distinct_dates_def length_remdups_card_conv)

text \<open>
  The Trip Summary of every record set: \<open>totalTrips\<close> is the number of distinct trip
  keys, the Dates as strings, that are not the name of a member of
  \<^verbatim>\<open>Object.prototype\<close>; \<open>totalSpent\<close> is the sum of the Totals of all records, added
  from \<^verbatim>\<open>0\<close> in their order; \<open>totalItems\<close> is the number of records; \<open>avgPerTrip\<close> is
  \<open>totalSpent\<close> divided by \<open>totalTrips\<close>. Where no Date is such a name, \<open>totalTrips\<close> is
  the number of distinct Date strings.
\<close>

lemma trip_summary:
  "totalTrips (overallStats env cd)
     = card {toString env (Date r) |r. r \<in> set cd \<and> \<not> inherited (toString env (Date r))}
   \<and> ((\<forall>r\<in>set cd. \<not> inherited (toString env (Date r)))
        \<longrightarrow> totalTrips (overallStats env cd) = distinct_dates env cd)
   \<and> totalSpent (overallStats env cd) = js_sum env (map Total cd)
   \<and> totalItems (overallStats env cd) = length cd
   \<and> avgPerTrip (overallStats env cd)
       = js_div env (totalSpent (overallStats env cd))
                    (Finite (of_nat (totalTrips (overallStats env cd))))"
proof -
  have t: "totalTrips (overallStats env cd)
     = card {toString env (Date r) |r. r \<in> set cd \<and> \<not> inherited (toString env (Date r))}"
    by (simp add: overallStats_def Let_def trips_count)
  have a: "avgPerTrip (overallStats env cd)
       = js_div env (totalSpent (overallStats env cd))
                    (Finite (of_nat (totalTrips (overallStats env cd))))"
    by (simp add: overallStats_def Let_def)
  have s: "totalSpent (overallStats env cd) = js_sum env (map Total cd)"
    by (simp add: overallStats_def Let_def sumTotal_js_sum)
  have n: "totalItems (overallStats env cd) = length cd"
    by (simp add: overallStats_def Let_def)
  have d: "(\<forall>r\<in>set cd. \<not> inherited (toString env (Date r)))
        \<longrightarrow> totalTrips (overallStats env cd) = distinct_dates env cd"
  proof
    assume h: "\<forall>r\<in>set cd. \<not> inherited (toString env (Date r))"
    then have "{toString env (Date r) |r. r \<in> set cd \<and> \<not> inherited (toString env (Date r))}
                 = (\<lambda>r. toString env (Date r)) ` set cd"
      by auto
    then show "totalTrips (overallStats env cd) = distinct_dates env cd"
      unfolding t distinct_dates_card by simp
  qed
  from t d s n a show ?thesis by (intro conjI)
qed

lemma example_overallStats:
  "overallStats example_env [whole_milk, crv_deposit, almond_milk]
     = \<lparr>totalSpent = Finite 8, avgPerTrip = Finite 4, totalTrips = 2, totalItems = 3\<rparr>
   \<and> distinct_dates example_env [whole_milk, crv_deposit, almond_milk] = 2"
proof -
  have 1: "overallStats example_env [whole_milk, crv_deposit, almond_milk]
     = \<lparr>totalSpent = Finite 8, avgPerTrip = Finite 4, totalTrips = 2, totalItems = 3\<rparr>"
    by code_simp
  have 2: "distinct_dates example_env [whole_milk, crv_deposit, almond_milk] = 2"
    by code_simp
  from 1 2 show ?thesis ..
qed

text \<open>
  C6 fails on a Date that is the name of a method of \<^verbatim>\<open>Object.prototype\<close>. For one
  record of 3.50 dated \<^verbatim>\<open>constructor\<close> the test \<^verbatim>\<open>!trips[tripKey]\<close> finds the inherited
  function, so no trip is created and the two updates go to that function: the record
  set has one distinct Date string, and \<open>totalTrips\<close> is 0 and \<open>avgPerTrip\<close> is
  \<^verbatim>\<open>Infinity\<close>, where the quotient of \<open>totalSpent\<close> by the number of distinct Date strings
  is 3.50.
\<close>

theorem trip_summary_inherited_date:
  "overallStats example_env [constructor_date]
     = \<lparr>totalSpent = Finite (7 / 2), avgPerTrip = PosInfinity, totalTrips = 0, totalItems = 1\<rparr>
   \<and> distinct_dates example_env [constructor_date] = 1
   \<and> js_div example_env (Finite (7 / 2))
        (Finite (of_nat (distinct_dates example_env [constructor_date]))) = Finite (7 / 2)"
proof -
  have 1: "overallStats example_env [constructor_date]
     = \<lparr>totalSpent = Finite (7 / 2), avgPerTrip = PosInfinity, totalTrips = 0, totalItems = 1\<rparr>"
    by code_simp
  have 2: "distinct_dates example_env [constructor_date] = 1"
    by code_simp
  have 3: "js_div example_env (Finite (7 / 2)) (Finite (of_nat 1)) = Finite (7 / 2)"
    by code_simp
  from 1 2 3 show ?thesis by simp
qed

section \<open>Search results: properties\<close>

lemma str_includes_sublist: "str_includes s t = sublist t s"
  by (induction s) (auto simp: sublist_Cons_right)

lemma matches_contains:
  "matches env (toLowerCase t) = (\<lambda>r. truthy (Item r) \<and> item_contains env t r)"
  by (simp add: fun_eq_iff matches_def item_contains_def str_includes_sublist)

lemma toLowerCase_empty: "(toLowerCase s = []) = (s = [])"
  by (simp add: toLowerCase_def)

lemma foldl_Total_js_sum:
  "foldl (\<lambda>sum it. js_plus env sum (Finite (Total it))) (Finite 0) rs = js_sum env (map Total rs)"
  by (simp add: js_sum_def foldl_map)

lemma keys_add_purchase:
  "map fst (add_purchase env obj r) =
     (case Date r of
        JStr d \<Rightarrow> if d \<in> fst ` set obj \<or> inherited d then map fst obj else map fst obj @ [d]
      | _ \<Rightarrow> map fst obj)"
proof (cases "Date r")
  case (JStr d)
  show ?thesis
  proof (cases "map_of obj d")
    case None
    then have "d \<notin> fst ` set obj" by (simp add: map_of_eq_None_iff)
    with None JStr show ?thesis
      by (simp add: add_purchase_def Let_def keys_obj_set)
  next
    case (Some e)
    then have "d \<in> fst ` set obj" by (metis map_of_eq_None_iff option.distinct(1))
    with Some JStr show ?thesis
      by (simp add: add_purchase_def Let_def keys_obj_set)
  qed
qed (simp_all add: add_purchase_def)

lemma purchases_fold_keys:
  "distinct (map fst obj) \<Longrightarrow>
   distinct (map fst (foldl (add_purchase env) obj rs))
   \<and> set (map fst (foldl (add_purchase env) obj rs))
       = set (map fst obj) \<union> {d. \<not> inherited d \<and> (\<exists>r\<in>set rs. Date r = JStr d)}"
proof (induction rs arbitrary: obj)
  case Nil
  then show ?case by simp
next
  case (Cons r rs)
  have d: "distinct (map fst (add_purchase env obj r))"
    using Cons.prems by (simp add: keys_add_purchase split: jsval.splits)
  have s: "set (map fst (add_purchase env obj r))
             = set (map fst obj) \<union> {d. \<not> inherited d \<and> Date r = JStr d}"
    by (auto simp: keys_add_purchase split: jsval.splits)
  from Cons.IH [OF d] show ?case unfolding foldl_Cons s by auto
qed

text \<open>
  The purchase history has one entry for each distinct string Date of the results that
  is not the name of a member of \<^verbatim>\<open>Object.prototype\<close>.
\<close>

lemma purchaseArray_length:
  "length (purchaseArray env rs) = card {d. \<not> inherited d \<and> (\<exists>r\<in>set rs. Date r = JStr d)}"
proof -
  have k: "distinct (map fst (foldl (add_purchase env) [] rs))"
    and s: "set (map fst (foldl (add_purchase env) [] rs))
              = {d. \<not> inherited d \<and> (\<exists>r\<in>set rs. Date r = JStr d)}"
    using purchases_fold_keys [of "[]" env rs] by simp_all
  have "length (purchaseArray env rs) = length (map fst (foldl (add_purchase env) [] rs))"
    by (simp add: purchaseArray_def length_js_sort length_own_entries)
  also have "\<dots> = card (set (map fst (foldl (add_purchase env) [] rs)))"
    using k by (rule distinct_card [symmetric])
  finally show ?thesis unfolding s .
qed

text \<open>
  C7, as amended. For a term that is not blank, the search result is the list of the
  records whose Item is truthy and, as a string, contains the term as a substring once
  both are put in lower case, in the order of the data; for a record whose Item is a
  string this is: the Item contains the term, whatever the case. \<open>totalSpent\<close> is the
  sum of the Totals of the result, added from \<^verbatim>\<open>0\<close> in that order.
\<close>

theorem search_results:
  assumes "\<not> (\<forall>c\<in>set (searchTerm st). is_white_space c)"
  shows "searchResults (handleSearch env st)
           = filter (\<lambda>r. truthy (Item r) \<and> item_contains env (searchTerm st) r) (data st)
       \<and> (\<forall>r\<in>set (data st). \<forall>s. Item r = JStr s \<longrightarrow>
             (r \<in> set (searchResults (handleSearch env st)))
               = sublist (toLowerCase (searchTerm st)) (toLowerCase s))
       \<and> search_totalSpent (handleSearch env st)
           = js_sum env (map Total (searchResults (handleSearch env st)))"
proof -
  from assms have t: "trim (searchTerm st) \<noteq> []"
    by (simp add: trim_empty_iff)
  have res: "searchResults (handleSearch env st)
           = filter (\<lambda>r. truthy (Item r) \<and> item_contains env (searchTerm st) r) (data st)"
    using t by (simp add: handleSearch_def Let_def matches_contains)
  have tot: "search_totalSpent (handleSearch env st)
           = js_sum env (map Total (searchResults (handleSearch env st)))"
    using t by (simp add: handleSearch_def Let_def foldl_Total_js_sum)
  have str: "(r \<in> set (searchResults (handleSearch env st)))
               = sublist (toLowerCase (searchTerm st)) (toLowerCase s)"
    if "r \<in> set (data st)" and "Item r = JStr s" for r s
  proof -
    from assms have "searchTerm st \<noteq> []" by auto
    then have "toLowerCase (searchTerm st) \<noteq> []"
      by (simp add: toLowerCase_empty)
    then have "sublist (toLowerCase (searchTerm st)) (toLowerCase s) \<Longrightarrow> s \<noteq> []"
      by (auto simp: toLowerCase_def)
    with that show ?thesis unfolding res by (auto simp: item_contains_def)
  qed
  from res tot str show ?thesis by blast
qed

lemma example_search:
  "handleSearch example_env milk_query =
     milk_query\<lparr>searchResults := [whole_milk, almond_milk], search_totalSpent := Finite (15 / 2),
       purchaseHistory := [\<lparr>date = ''2025-01-05'', quantity = CNum (Finite 1),
                             purchase_total = Finite (7 / 2)\<rparr>,
                            \<lparr>date = ''2025-01-06'', quantity = CNum (Finite 1),
                             purchase_total = Finite 4\<rparr>],
       priceHistory := [\<lparr>price_date = ''2025-01-05'', price = JNum (7 / 2)\<rparr>,
                         \<lparr>price_date = ''2025-01-06'', price = JNum 4\<rparr>]\<rparr>"
  by code_simp

theorem search_results_witness:
  "\<not> (\<forall>c\<in>set (searchTerm milk_query). is_white_space c)
   \<and> searchTerm milk_query = ''milk''
   \<and> data milk_query = [whole_milk, bread, almond_milk]
   \<and> searchResults (handleSearch example_env milk_query) = [whole_milk, almond_milk]
   \<and> filter (\<lambda>r. truthy (Item r) \<and> item_contains example_env ''milk'' r)
        [whole_milk, bread, almond_milk] = [whole_milk, almond_milk]
   \<and> length (searchResults (handleSearch example_env milk_query)) = 2
   \<and> search_totalSpent (handleSearch example_env milk_query) = Finite (15 / 2)
   \<and> js_sum example_env (map Total [whole_milk, almond_milk]) = Finite (15 / 2)
   \<and> length (purchaseHistory (handleSearch example_env milk_query)) = 2"
proof -
  have t: "\<not> (\<forall>c\<in>set (searchTerm milk_query). is_white_space c)"
    by (simp add: milk_query_def is_white_space_def)
  note w = search_results [OF t, of example_env]
  have r: "searchResults (handleSearch example_env milk_query) = [whole_milk, almond_milk]"
    by (simp add: example_search)
  have s: "search_totalSpent (handleSearch example_env milk_query) = Finite (15 / 2)"
    by (simp add: example_search)
  have h: "length (purchaseHistory (handleSearch example_env milk_query)) = 2"
    by (simp add: example_search)
  have 3: "searchTerm milk_query = ''milk''" "data milk_query = [whole_milk, bread, almond_milk]"
    by (simp_all add: milk_query_def)
  from w have "searchResults (handleSearch example_env milk_query)
           = filter (\<lambda>r. truthy (Item r) \<and> item_contains example_env (searchTerm milk_query) r)
               (data milk_query)"
    by blast
  then have 0: "filter (\<lambda>r. truthy (Item r) \<and> item_contains example_env ''milk'' r)
        [whole_milk, bread, almond_milk] = [whole_milk, almond_milk]"
    unfolding r 3 by simp
  from w have "search_totalSpent (handleSearch example_env milk_query)
           = js_sum example_env (map Total (searchResults (handleSearch example_env milk_query)))"
    by blast
  then have 1: "js_sum example_env (map Total [whole_milk, almond_milk]) = Finite (15 / 2)"
    unfolding r s by simp
  from t r s h 0 1 3 show ?thesis by simp
qed

text \<open>
  C7 as stated fails on an Item that is not truthy: the record whose Item is the number
  \<^verbatim>\<open>0\<close> contains the term \<^verbatim>\<open>0\<close>, and the guard \<^verbatim>\<open>item.Item &&\<close> of the filter leaves
  it out of the result.
\<close>

theorem search_results_counterexample:
  "data zero_query = [numbered_item]
   \<and> searchTerm zero_query = ''0''
   \<and> Item numbered_item = JNum 0
   \<and> toString example_env (Item numbered_item) = ''0''
   \<and> filter (item_contains example_env (searchTerm zero_query)) (data zero_query)
       = [numbered_item]
   \<and> searchResults (handleSearch example_env zero_query) = []"
proof -
  have 1: "data zero_query = [numbered_item]" "searchTerm zero_query = ''0''"
    by (simp_all add: zero_query_def)
  have 2: "Item numbered_item = JNum 0" by (simp add: numbered_item_def)
  have 3: "toString example_env (Item numbered_item) = ''0''" by code_simp
  have 4: "item_contains example_env ''0'' numbered_item"
    unfolding item_contains_def 3 by (simp add: toLowerCase_def lower_char_def)
  have 5: "searchResults (handleSearch example_env zero_query) = []" by code_simp
  from 1 2 3 4 5 show ?thesis by simp
qed

section \<open>Price snapshot: properties\<close>













end
